theory Spec2Isabelle
  imports Main "HOL-Library.Word" "HOL-Library.Multiset"
begin

section \<open>JavaScript strings\<close>

text \<open>
  A JavaScript string is a sequence of 16-bit code units. String literals of the source are
  written with \<open>js\<close>, which maps an ASCII literal to its code units; the accented letters of
  the Portuguese literals are given by their code units (U+00E3, U+00E7, U+00E9, U+00ED,
  U+00F3), as they stand in the source files.
\<close>

type_synonym code_unit = "16 word"
type_synonym jsstring = "code_unit list"

definition js :: "string \<Rightarrow> jsstring" where
  "js s = map of_char s"

definition a_tilde :: code_unit where "a_tilde = 0xE3"
definition c_cedilla :: code_unit where "c_cedilla = 0xE7"
definition e_acute :: code_unit where "e_acute = 0xE9"
definition i_acute :: code_unit where "i_acute = 0xED"
definition o_acute :: code_unit where "o_acute = 0xF3"

text \<open>
  \<open>String.prototype.trim\<close> removes leading and trailing WhiteSpace and LineTerminator code
  points (ECMA-262): TAB, LF, VT, FF, CR, SP, NBSP, U+1680, U+2000..U+200A, U+2028, U+2029,
  U+202F, U+205F, U+3000 and U+FEFF.
\<close>

definition js_whitespace :: "code_unit \<Rightarrow> bool" where
  "js_whitespace c \<longleftrightarrow>
     c = 0x09 \<or> c = 0x0A \<or> c = 0x0B \<or> c = 0x0C \<or> c = 0x0D \<or> c = 0x20 \<or> c = 0xA0 \<or>
     c = 0x1680 \<or> (0x2000 \<le> c \<and> c \<le> 0x200A) \<or> c = 0x2028 \<or> c = 0x2029 \<or>
     c = 0x202F \<or> c = 0x205F \<or> c = 0x3000 \<or> c = 0xFEFF"

definition trim :: "jsstring \<Rightarrow> jsstring" where
  "trim s = rev (dropWhile js_whitespace (rev (dropWhile js_whitespace s)))"

text \<open>
  \<open>s.split(',')\<close>: the segments of \<open>s\<close> between commas; always at least one segment.
\<close>

fun split_on :: "code_unit \<Rightarrow> jsstring \<Rightarrow> jsstring list" where
  "split_on sep [] = [[]]"
| "split_on sep (c # cs) =
     (if c = sep then [] # split_on sep cs
      else (case split_on sep cs of
              [] \<Rightarrow> [[c]]
            | seg # segs \<Rightarrow> (c # seg) # segs))"


section \<open>JSON values and \<open>JSON.parse\<close>\<close>

text \<open>
  \<open>JSON.parse\<close> is a built-in of the JavaScript runtime, not code of the repository; it is
  modelled after the JSON grammar (ECMA-404), as a recursive-descent parser that is total. A number is kept
  as its lexeme (its IEEE-754 value is not computed); an object is the list of its members in
  the order written. \<open>None\<close> stands for the \<open>SyntaxError\<close> that \<open>JSON.parse\<close> throws.
\<close>

datatype json =
    JNull
  | JBool bool
  | JNum jsstring
  | JStr jsstring
  | JArr "json list"
  | JObj "(jsstring \<times> json) list"

definition json_ws :: "code_unit \<Rightarrow> bool" where
  "json_ws c \<longleftrightarrow> c = 0x20 \<or> c = 0x09 \<or> c = 0x0A \<or> c = 0x0D"

definition skip_ws :: "jsstring \<Rightarrow> jsstring" where
  "skip_ws s = dropWhile json_ws s"

definition is_digit :: "code_unit \<Rightarrow> bool" where
  "is_digit c \<longleftrightarrow> 0x30 \<le> c \<and> c \<le> 0x39"

definition hex_val :: "code_unit \<Rightarrow> code_unit option" where
  "hex_val c =
     (if 0x30 \<le> c \<and> c \<le> 0x39 then Some (c - 0x30)
      else if 0x41 \<le> c \<and> c \<le> 0x46 then Some (c - 0x41 + 10)
      else if 0x61 \<le> c \<and> c \<le> 0x66 then Some (c - 0x61 + 10)
      else None)"

definition hex4 :: "code_unit \<Rightarrow> code_unit \<Rightarrow> code_unit \<Rightarrow> code_unit \<Rightarrow> code_unit option" where
  "hex4 a b c d =
     (case (hex_val a, hex_val b, hex_val c, hex_val d) of
        (Some x, Some y, Some z, Some w) \<Rightarrow> Some (((x * 16 + y) * 16 + z) * 16 + w)
      | _ \<Rightarrow> None)"

definition escape_char :: "code_unit \<Rightarrow> code_unit option" where
  "escape_char e =
     (if e = 0x22 then Some 0x22
      else if e = 0x5C then Some 0x5C
      else if e = 0x2F then Some 0x2F
      else if e = 0x62 then Some 0x08
      else if e = 0x66 then Some 0x0C
      else if e = 0x6E then Some 0x0A
      else if e = 0x72 then Some 0x0D
      else if e = 0x74 then Some 0x09
      else None)"

definition cons_fst :: "'a \<Rightarrow> ('a list \<times> 'b) option \<Rightarrow> ('a list \<times> 'b) option" where
  "cons_fst x r = (case r of None \<Rightarrow> None | Some (xs, rest) \<Rightarrow> Some (x # xs, rest))"

text \<open>The characters of a string after its opening quote, up to the closing quote.\<close>

fun string_chars :: "jsstring \<Rightarrow> (jsstring \<times> jsstring) option" where
  "string_chars [] = None"
| "string_chars (c # cs) =
     (if c = 0x22 then Some ([], cs)
      else if c < 0x20 then None
      else if c = 0x5C then
        (case cs of
           [] \<Rightarrow> None
         | e # r \<Rightarrow>
             if e = 0x75 then
               (case r of
                  h1 # h2 # h3 # h4 # r' \<Rightarrow>
                    (case hex4 h1 h2 h3 h4 of
                       None \<Rightarrow> None
                     | Some u \<Rightarrow> cons_fst u (string_chars r'))
                | _ \<Rightarrow> None)
             else
               (case escape_char e of
                  None \<Rightarrow> None
                | Some x \<Rightarrow> cons_fst x (string_chars r)))
      else cons_fst c (string_chars cs))"

text \<open>One or more digits.\<close>

definition digits1 :: "jsstring \<Rightarrow> (jsstring \<times> jsstring) option" where
  "digits1 s =
     (let ds = takeWhile is_digit s in
      if ds = [] then None else Some (ds, dropWhile is_digit s))"

definition number_int :: "jsstring \<Rightarrow> (jsstring \<times> jsstring) option" where
  "number_int s =
     (case s of
        [] \<Rightarrow> None
      | c # cs \<Rightarrow> if c = 0x30 then Some ([c], cs) else digits1 s)"

definition number_frac :: "jsstring \<Rightarrow> (jsstring \<times> jsstring) option" where
  "number_frac s =
     (case s of
        [] \<Rightarrow> Some ([], s)
      | c # cs \<Rightarrow>
          if c = 0x2E then
            (case digits1 cs of None \<Rightarrow> None | Some (ds, r) \<Rightarrow> Some (c # ds, r))
          else Some ([], s))"

definition number_exp :: "jsstring \<Rightarrow> (jsstring \<times> jsstring) option" where
  "number_exp s =
     (case s of
        [] \<Rightarrow> Some ([], s)
      | c # cs \<Rightarrow>
          if c = 0x65 \<or> c = 0x45 then
            (case cs of
               [] \<Rightarrow> None
             | g # gs \<Rightarrow>
                 if g = 0x2B \<or> g = 0x2D then
                   (case digits1 gs of None \<Rightarrow> None | Some (ds, r) \<Rightarrow> Some (c # g # ds, r))
                 else
                   (case digits1 cs of None \<Rightarrow> None | Some (ds, r) \<Rightarrow> Some (c # ds, r)))
          else Some ([], s))"

definition parse_number :: "jsstring \<Rightarrow> (jsstring \<times> jsstring) option" where
  "parse_number s =
     (let (sign, s1) = (case s of c # cs \<Rightarrow> if c = 0x2D then ([c], cs) else ([], s) | [] \<Rightarrow> ([], s)) in
      case number_int s1 of
        None \<Rightarrow> None
      | Some (ip, s2) \<Rightarrow>
          (case number_frac s2 of
             None \<Rightarrow> None
           | Some (fp, s3) \<Rightarrow>
               (case number_exp s3 of
                  None \<Rightarrow> None
                | Some (ep, s4) \<Rightarrow> Some (sign @ ip @ fp @ ep, s4))))"

definition literal :: "jsstring \<Rightarrow> json \<Rightarrow> jsstring \<Rightarrow> (json \<times> jsstring) option" where
  "literal word v s =
     (if take (length word) s = word then Some (v, drop (length word) s) else None)"

text \<open>
  The recursive descent: a value, the elements of an array after its opening bracket, and
  the members of an object after its opening brace. Each function returns what it parsed and
  the rest of the text.
\<close>

function parse_value :: "jsstring \<Rightarrow> (json \<times> jsstring) option"
  and parse_elements :: "jsstring \<Rightarrow> (json list \<times> jsstring) option"
  and parse_members :: "jsstring \<Rightarrow> ((jsstring \<times> json) list \<times> jsstring) option"
where
  "parse_value s =
     (case skip_ws s of
        [] \<Rightarrow> None
      | c # r \<Rightarrow>
          if c = 0x7B then
            (case skip_ws r of
               [] \<Rightarrow> None
             | d # r' \<Rightarrow>
                 if d = 0x7D then Some (JObj [], r')
                 else (case parse_members (d # r') of
                         None \<Rightarrow> None
                       | Some (ms, rest) \<Rightarrow> Some (JObj ms, rest)))
          else if c = 0x5B then
            (case skip_ws r of
               [] \<Rightarrow> None
             | d # r' \<Rightarrow>
                 if d = 0x5D then Some (JArr [], r')
                 else (case parse_elements (d # r') of
                         None \<Rightarrow> None
                       | Some (vs, rest) \<Rightarrow> Some (JArr vs, rest)))
          else if c = 0x22 then
            (case string_chars r of
               None \<Rightarrow> None
             | Some (str, rest) \<Rightarrow> Some (JStr str, rest))
          else if c = 0x74 then literal (js ''true'') (JBool True) (c # r)
          else if c = 0x66 then literal (js ''false'') (JBool False) (c # r)
          else if c = 0x6E then literal (js ''null'') JNull (c # r)
          else
            (case parse_number (c # r) of
               None \<Rightarrow> None
             | Some (lexeme, rest) \<Rightarrow> Some (JNum lexeme, rest)))"
| "parse_elements s =
     (case parse_value s of
        None \<Rightarrow> None
      | Some (v, r) \<Rightarrow>
          (case skip_ws r of
             [] \<Rightarrow> None
           | c # r' \<Rightarrow>
               if c = 0x5D then Some ([v], r')
               else if c = 0x2C then cons_fst v (parse_elements r')
               else None))"
| "parse_members s =
     (case skip_ws s of
        [] \<Rightarrow> None
      | q # r \<Rightarrow>
          if q = 0x22 then
            (case string_chars r of
               None \<Rightarrow> None
             | Some (k, r1) \<Rightarrow>
                 (case skip_ws r1 of
                    [] \<Rightarrow> None
                  | colon # r2 \<Rightarrow>
                      if colon = 0x3A then
                        (case parse_value r2 of
                           None \<Rightarrow> None
                         | Some (v, r3) \<Rightarrow>
                             (case skip_ws r3 of
                                [] \<Rightarrow> None
                              | c # r4 \<Rightarrow>
                                  if c = 0x7D then Some ([(k, v)], r4)
                                  else if c = 0x2C then cons_fst (k, v) (parse_members r4)
                                  else None))
                      else None))
          else None)"
  by pat_completeness auto

text \<open>
  Termination: every parser that succeeds leaves a rest that is shorter than its input, so
  the calls that continue on a rest are on shorter texts.
\<close>

lemma skip_ws_shrinks: "skip_ws s = c # r \<Longrightarrow> length r < length s"
proof -
  assume a: "skip_ws s = c # r"
  have "length (skip_ws s) \<le> length s"
    unfolding skip_ws_def by (rule length_dropWhile_le)
  with a show ?thesis by simp
qed

lemma cons_fst_Some: "cons_fst x p = Some (ys, r) \<Longrightarrow> \<exists>xs. p = Some (xs, r) \<and> ys = x # xs"
  by (auto simp: cons_fst_def split: option.splits)

lemma string_chars_shrinks: "string_chars s = Some (k, r) \<Longrightarrow> length r < length s"
proof (induction s arbitrary: k rule: string_chars.induct)
  case 1
  then show ?case by simp
next
  case (2 c cs)
  show ?case
  proof (cases "c = 0x22")
    case True
    with "2.prems" show ?thesis by simp
  next
    case q: False
    show ?thesis
    proof (cases "c < 0x20")
      case True
      with "2.prems" q show ?thesis by simp
    next
      case ctl: False
      show ?thesis
      proof (cases "c = 0x5C")
        case False
        with "2.prems" q ctl obtain xs where "string_chars cs = Some (xs, r)"
          by (auto dest: cons_fst_Some)
        with "2.IH"(3) [OF q ctl False] show ?thesis by fastforce
      next
        case True
        show ?thesis
        proof (cases cs)
          case Nil
          with "2.prems" q ctl True show ?thesis by simp
        next
          case (Cons e r0)
          show ?thesis
          proof (cases "e = 0x75")
            case False
            with "2.prems" q ctl True Cons obtain x xs where
              "escape_char e = Some x" "string_chars r0 = Some (xs, r)"
              by (auto split: option.splits dest: cons_fst_Some)
            with "2.IH"(2) [OF q ctl True Cons False] Cons show ?thesis by fastforce
          next
            case u: True
            with "2.prems" q ctl True Cons obtain h1 h2 h3 h4 r' uu xs where
              r0: "r0 = h1 # h2 # h3 # h4 # r'" and "hex4 h1 h2 h3 h4 = Some uu"
              and "string_chars r' = Some (xs, r)"
              by (auto split: option.splits list.splits dest: cons_fst_Some)
            with "2.IH"(1) [OF q ctl True Cons u r0] Cons show ?thesis by fastforce
          qed
        qed
      qed
    qed
  qed
qed

lemma digits1_shrinks: "digits1 s = Some (ds, r) \<Longrightarrow> length r < length s"
proof -
  assume a: "digits1 s = Some (ds, r)"
  then have ds: "takeWhile is_digit s \<noteq> []" and r: "r = dropWhile is_digit s"
    by (auto simp: digits1_def Let_def split: if_splits)
  have "length (takeWhile is_digit s) + length (dropWhile is_digit s) = length s"
    by (metis length_append takeWhile_dropWhile_id)
  with ds r show ?thesis by (cases "takeWhile is_digit s") auto
qed

lemma number_int_shrinks: "number_int s = Some (ip, r) \<Longrightarrow> length r < length s"
  by (auto simp: number_int_def split: list.splits if_splits dest: digits1_shrinks)

lemma number_frac_shrinks: "number_frac s = Some (fp, r) \<Longrightarrow> length r \<le> length s"
  by (auto simp: number_frac_def split: list.splits if_splits option.splits dest!: digits1_shrinks)

lemma number_exp_shrinks: "number_exp s = Some (ep, r) \<Longrightarrow> length r \<le> length s"
  by (auto simp: number_exp_def split: list.splits if_splits option.splits dest!: digits1_shrinks)

lemma parse_number_shrinks: "parse_number s = Some (l, r) \<Longrightarrow> length r < length s"
proof -
  assume a: "parse_number s = Some (l, r)"
  obtain sign s1 where s1: "(case s of c # cs \<Rightarrow> if c = 0x2D then ([c], cs) else ([], s) | [] \<Rightarrow> ([], s)) = (sign, s1)"
    by (cases "(case s of c # cs \<Rightarrow> if c = 0x2D then ([c], cs) else ([], s) | [] \<Rightarrow> ([], s))") 
  then have l1: "length s1 \<le> length s" by (auto split: list.splits if_splits)
  from a s1 obtain ip s2 fp s3 ep where
    "number_int s1 = Some (ip, s2)" "number_frac s2 = Some (fp, s3)" "number_exp s3 = Some (ep, r)"
    by (auto simp: parse_number_def split: option.splits)
  then have "length s2 < length s1" "length s3 \<le> length s2" "length r \<le> length s3"
    by (auto dest: number_int_shrinks number_frac_shrinks number_exp_shrinks)
  with l1 show ?thesis by simp
qed

lemma literal_shrinks: "literal w v s = Some (x, r) \<Longrightarrow> w \<noteq> [] \<Longrightarrow> length r < length s"
proof -
  assume a: "literal w v s = Some (x, r)" and w: "w \<noteq> []"
  then have t: "take (length w) s = w" and r: "r = drop (length w) s"
    by (auto simp: literal_def split: if_splits)
  from t have "length w \<le> length s" by (metis length_take min.cobounded1)
  with w r show ?thesis by (cases w) auto
qed

lemma parse_value_cases:
  assumes "parse_value_parse_elements_parse_members_dom (Inl s)"
    and "parse_value s = Some (v, rest)"
  obtains (obj_empty) c r d r' where "skip_ws s = c # r" "skip_ws r = d # r'" "rest = r'"
  | (obj) c r d r' ms where "skip_ws s = c # r" "c = 0x7B" "skip_ws r = d # r'" "d \<noteq> 0x7D"
      "parse_members (d # r') = Some (ms, rest)"
  | (arr) c r d r' vs where "skip_ws s = c # r" "c \<noteq> 0x7B" "c = 0x5B" "skip_ws r = d # r'" "d \<noteq> 0x5D"
      "parse_elements (d # r') = Some (vs, rest)"
  | (str) c r k where "skip_ws s = c # r" "string_chars r = Some (k, rest)"
  | (lit) c r w x where "skip_ws s = c # r" "literal w x (c # r) = Some (v, rest)" "w \<noteq> []"
  | (num) c r l where "skip_ws s = c # r" "parse_number (c # r) = Some (l, rest)"
  using assms(2) unfolding parse_value.psimps [OF assms(1)]
  by (auto split: list.splits if_splits option.splits simp: js_def)


lemma parse_shrinks:
  "parse_value_parse_elements_parse_members_dom (Inl s) \<Longrightarrow>
     (\<forall>v rest. parse_value s = Some (v, rest) \<longrightarrow> length rest < length s)"
  "parse_value_parse_elements_parse_members_dom (Inr (Inl s1)) \<Longrightarrow>
     (\<forall>vs rest. parse_elements s1 = Some (vs, rest) \<longrightarrow> length rest < length s1)"
  "parse_value_parse_elements_parse_members_dom (Inr (Inr s2)) \<Longrightarrow>
     (\<forall>ms rest. parse_members s2 = Some (ms, rest) \<longrightarrow> length rest < length s2)"
proof (induction rule: parse_value_parse_elements_parse_members.pinduct)
  case (1 s)
  show ?case
  proof (intro allI impI)
    fix v rest assume p: "parse_value s = Some (v, rest)"
    from "1.hyps" p show "length rest < length s"
    proof (cases rule: parse_value_cases)
      case (obj_empty c r d r')
      then show ?thesis using skip_ws_shrinks [of s c r] skip_ws_shrinks [of r d r'] by simp
    next
      case (obj c r d r' ms)
      from "1.IH"(1) [OF obj(1,2,3,4)] obj(5) have "length rest < length (d # r')" by blast
      then show ?thesis using skip_ws_shrinks [OF obj(1)] skip_ws_shrinks [OF obj(3)] by simp
    next
      case (arr c r d r' vs)
      from "1.IH"(2) [OF arr(1,2,3,4,5)] arr(6) have "length rest < length (d # r')" by blast
      then show ?thesis using skip_ws_shrinks [OF arr(1)] skip_ws_shrinks [OF arr(4)] by simp
    next
      case (str c r k)
      then show ?thesis using skip_ws_shrinks [of s c r] string_chars_shrinks [of r k rest] by simp
    next
      case (lit c r w x)
      have "length (skip_ws s) \<le> length s" unfolding skip_ws_def by (rule length_dropWhile_le)
      then show ?thesis using lit literal_shrinks [of w x "c # r" v rest] by simp
    next
      case (num c r l)
      have "length (skip_ws s) \<le> length s" unfolding skip_ws_def by (rule length_dropWhile_le)
      then show ?thesis using num parse_number_shrinks [of "c # r" l rest] by simp
    qed
  qed
next
  case (2 s)
  show ?case
  proof (intro allI impI)
    fix vs rest assume p: "parse_elements s = Some (vs, rest)"
    from p obtain v r c r' where v: "parse_value s = Some (v, r)" and sk: "skip_ws r = c # r'"
      and alt: "(c = 0x5D \<and> rest = r') \<or>
                (c \<noteq> 0x5D \<and> c = 0x2C \<and> (\<exists>xs. parse_elements r' = Some (xs, rest)))"
      unfolding parse_elements.psimps [OF "2.hyps"]
      by (auto split: option.splits list.splits if_splits dest!: cons_fst_Some)
    from "2.IH"(1) v have a: "length r < length s" by blast
    from alt show "length rest < length s"
    proof
      assume "c = 0x5D \<and> rest = r'"
      then show ?thesis using a skip_ws_shrinks [OF sk] by simp
    next
      assume b: "c \<noteq> 0x5D \<and> c = 0x2C \<and> (\<exists>xs. parse_elements r' = Some (xs, rest))"
      then obtain xs where xs: "parse_elements r' = Some (xs, rest)" by blast
      from "2.IH"(2) [OF v refl sk] b xs have "length rest < length r'" by blast
      then show ?thesis using a skip_ws_shrinks [OF sk] by simp
    qed
  qed
next
  case (3 s)
  show ?case
  proof (intro allI impI)
    fix ms rest assume p: "parse_members s = Some (ms, rest)"
    from p obtain q r k r1 colon r2 v r3 c r4 where
      s: "skip_ws s = q # r" "q = 0x22" and k: "string_chars r = Some (k, r1)"
      and c1: "skip_ws r1 = colon # r2" "colon = 0x3A"
      and v: "parse_value r2 = Some (v, r3)" and sk: "skip_ws r3 = c # r4"
      and alt: "(c = 0x7D \<and> rest = r4) \<or>
                (c \<noteq> 0x7D \<and> c = 0x2C \<and> (\<exists>xs. parse_members r4 = Some (xs, rest)))"
      unfolding parse_members.psimps [OF "3.hyps"]
      by (auto split: option.splits list.splits if_splits dest!: cons_fst_Some)
    from "3.IH"(1) [OF s k refl c1] v have a: "length r3 < length r2" by blast
    have b: "length r2 < length s"
      using skip_ws_shrinks [OF s(1)] string_chars_shrinks [OF k] skip_ws_shrinks [OF c1(1)] by simp
    from alt show "length rest < length s"
    proof
      assume "c = 0x7D \<and> rest = r4"
      then show ?thesis using a b skip_ws_shrinks [OF sk] by simp
    next
      assume d: "c \<noteq> 0x7D \<and> c = 0x2C \<and> (\<exists>xs. parse_members r4 = Some (xs, rest))"
      then obtain xs where xs: "parse_members r4 = Some (xs, rest)" by blast
      from "3.IH"(2) [OF s k refl c1 v refl sk] d xs have "length rest < length r4" by blast
      then show ?thesis using a b skip_ws_shrinks [OF sk] by simp
    qed
  qed
qed

termination parse_value
proof (relation "measure (\<lambda>x. case x of Inl s \<Rightarrow> 2 * length s
                                 | Inr (Inl s) \<Rightarrow> 2 * length s + 1
                                 | Inr (Inr s) \<Rightarrow> 2 * length s + 1)", goal_cases)
  case 1
  show ?case by simp
next
  case (2 s c r d r')
  then show ?case using skip_ws_shrinks [of s c r] skip_ws_shrinks [of r d r'] by simp
next
  case (3 s c r d r')
  then show ?case using skip_ws_shrinks [of s c r] skip_ws_shrinks [of r d r'] by simp
next
  case (4 s)
  show ?case by simp
next
  case (5 s x2 v r c r')
  then have "length r < length s" using parse_shrinks(1) [of s] by auto
  then show ?case using 5 skip_ws_shrinks [of r c r'] by simp
next
  case (6 s q r x2 k r1 colon r2)
  then show ?case
    using skip_ws_shrinks [of s q r] string_chars_shrinks [of r k r1] skip_ws_shrinks [of r1 colon r2]
    by simp
next
  case (7 s q r x2 k r1 colon r2 x2a v r3 c r4)
  then have "length r3 < length r2" using parse_shrinks(1) [of r2] by auto
  then show ?case
    using 7 skip_ws_shrinks [of s q r] string_chars_shrinks [of r k r1]
      skip_ws_shrinks [of r1 colon r2] skip_ws_shrinks [of r3 c r4]
    by simp
qed

declare parse_value.simps [simp del] parse_elements.simps [simp del] parse_members.simps [simp del]

text \<open>\<open>JSON.parse\<close>: one value, with nothing but whitespace after it.\<close>

definition JSON_parse :: "jsstring \<Rightarrow> json option" where
  "JSON_parse s =
     (case parse_value s of
        None \<Rightarrow> None
      | Some (v, rest) \<Rightarrow> if skip_ws rest = [] then Some v else None)"


section \<open>The AI service: \<open>getAI\<close>, \<open>generateComicStory\<close>, \<open>generatePanelImage\<close>, \<open>translateText\<close>\<close>

text \<open>
  Exceptions are values: \<open>Error m\<close> is \<open>new Error(m)\<close>; the other constructors are the
  error classes of the runtime and of the SQLite binding.
\<close>

datatype error =
    Error jsstring
  | TypeError jsstring
  | SyntaxError jsstring
  | SqliteError jsstring

subsection \<open>Requests and responses of the provider\<close>

record inline_data =
  data :: "jsstring option"
  mimeType :: "jsstring option"

record part =
  part_text :: "jsstring option"
  inlineData :: "inline_data option"

datatype contents = ContentsText jsstring | ContentsParts "part list"

datatype schema =
    SchemaString
  | SchemaArray schema
  | SchemaObject "(jsstring \<times> schema) list" "jsstring list"

text \<open>
  The \<open>config\<close> field of a request: absent, \<open>{responseMimeType, responseSchema}\<close>, or
  \<open>{imageConfig: {aspectRatio}}\<close>.
\<close>

datatype config = NoConfig | JsonConfig jsstring schema | ImageConfig jsstring

record request =
  model :: jsstring
  contents :: contents
  config :: config

record content =
  parts :: "part list option"

record candidate =
  content :: "content option"

text \<open>The field \<open>response_text\<close> is \<open>response.text\<close>.\<close>

record response =
  response_text :: "jsstring option"
  candidates :: "candidate list option"

text \<open>
  The provider is external. It is a parameter: given the number of requests issued so far,
  the API key of the client and the request, it answers with a response or rejects with an
  error. Every request issued is appended to a log, so that "no external request was issued"
  is a statement about the log.
\<close>

type_synonym provider = "nat \<Rightarrow> jsstring \<Rightarrow> request \<Rightarrow> error + response"

definition generateContent ::
  "provider \<Rightarrow> jsstring \<Rightarrow> request list \<Rightarrow> request \<Rightarrow> (error + response) \<times> request list" where
  "generateContent provider ai issued req = (provider (length issued) ai req, issued @ [req])"

subsection \<open>\<open>getAI\<close>\<close>

text \<open>
  \<open>apiKey\<close> is \<open>process.env.GEMINI_API_KEY\<close>: \<open>None\<close> when the variable is not set. The
  client is represented by the key it was built with. \<open>!apiKey\<close> holds for an unset and for
  an empty variable.
\<close>

definition getAI :: "jsstring option \<Rightarrow> error + jsstring" where
  "getAI apiKey =
     (case apiKey of
        None \<Rightarrow> Inl (Error (js ''GEMINI_API_KEY is not set''))
      | Some k \<Rightarrow> if k = [] then Inl (Error (js ''GEMINI_API_KEY is not set'')) else Inr k)"

subsection \<open>\<open>generateComicStory\<close>\<close>

definition story_prompt :: "jsstring \<Rightarrow> jsstring \<Rightarrow> jsstring" where
  "story_prompt prompt language =
     js ''Crie uma hist'' @ [o_acute] @ js ''ria curta para uma hist'' @ [o_acute] @
     js ''ria em quadrinhos baseada no seguinte tema: '' @ [0x22] @ prompt @ [0x22] @
     js ''. '' @ [0x0A] @
     js ''    Retorne a hist'' @ [o_acute] @ js ''ria dividida em 4 a 6 pain'' @ [e_acute] @
     js ''is. '' @ [0x0A] @
     js ''    Para cada painel, forne'' @ [c_cedilla] @ js ''a uma descri'' @
     [c_cedilla, a_tilde] @ js ''o visual detalhada (para gera'' @ [c_cedilla, a_tilde] @
     js ''o de imagem) e um texto de legenda ou bal'' @ [a_tilde] @ js ''o de fala.'' @ [0x0A] @
     js ''    O idioma da resposta deve ser '' @ language @ js ''.''"

definition story_schema :: schema where
  "story_schema =
     SchemaObject
       [(js ''title'', SchemaString),
        (js ''panels'',
           SchemaArray
             (SchemaObject
                [(js ''visualDescription'', SchemaString), (js ''caption'', SchemaString)]
                [js ''visualDescription'', js ''caption'']))]
       [js ''title'', js ''panels'']"

definition story_request :: "jsstring \<Rightarrow> jsstring \<Rightarrow> request" where
  "story_request prompt language =
     \<lparr> model = js ''gemini-3-flash-preview'',
       contents = ContentsText (story_prompt prompt language),
       config = JsonConfig (js ''application/json'') story_schema \<rparr>"

text \<open>
  \<open>text.replace(/```json|```/g, "")\<close>: scanning from the left, at each position the
  alternatives are tried in order; a match is deleted and scanning resumes after it.
\<close>

definition fence :: jsstring where
  "fence = js ''```''"

definition fence_json :: jsstring where
  "fence_json = js ''```json''"

function strip_fences :: "jsstring \<Rightarrow> jsstring" where
  "strip_fences [] = []"
| "strip_fences (c # cs) =
     (if take (length fence_json) (c # cs) = fence_json
        then strip_fences (drop (length fence_json) (c # cs))
      else if take (length fence) (c # cs) = fence
        then strip_fences (drop (length fence) (c # cs))
      else c # strip_fences cs)"
  by pat_completeness auto
termination
  by (relation "measure length") (auto simp: fence_def fence_json_def js_def)

text \<open>The value returned from the \<open>catch\<close> block.\<close>

definition fallback_story :: json where
  "fallback_story =
     JObj [(js ''title'', JStr (js ''Hist'' @ [o_acute] @ js ''ria Sem T'' @ [i_acute] @ js ''tulo'')),
           (js ''panels'', JArr [])]"

text \<open>
  The \<open>try\<close>/\<open>catch\<close> block. \<open>response.text || "{}"\<close> replaces an absent and an empty text
  by \<open>"{}"\<close>. The only statement of the block that can throw is \<open>JSON.parse\<close>; the
  \<open>console.error\<close> of the handler is not modelled.
\<close>

definition parse_story :: "jsstring option \<Rightarrow> json" where
  "parse_story rt =
     (let text = (case rt of
                    None \<Rightarrow> js ''{}''
                  | Some t \<Rightarrow> if t = [] then js ''{}'' else t);
          cleanJson = trim (strip_fences text)
      in case JSON_parse cleanJson of
           Some v \<Rightarrow> v
         | None \<Rightarrow> fallback_story)"

text \<open>\<open>language\<close> is optional, with default \<open>"pt-BR"\<close>.\<close>

definition generateComicStory ::
  "jsstring option \<Rightarrow> provider \<Rightarrow> request list \<Rightarrow> jsstring \<Rightarrow> jsstring option \<Rightarrow>
   (error + json) \<times> request list" where
  "generateComicStory apiKey provider issued prompt language =
     (case getAI apiKey of
        Inl e \<Rightarrow> (Inl e, issued)
      | Inr ai \<Rightarrow>
          (case generateContent provider ai issued
                  (story_request prompt (case language of None \<Rightarrow> js ''pt-BR'' | Some l \<Rightarrow> l)) of
             (Inl e, issued') \<Rightarrow> (Inl e, issued')
           | (Inr response, issued') \<Rightarrow> (Inr (parse_story (response_text response)), issued')))"

subsection \<open>\<open>generatePanelImage\<close>\<close>

definition image_prompt :: "jsstring \<Rightarrow> jsstring" where
  "image_prompt description =
     js ''Gere uma imagem de estilo hist'' @ [o_acute] @
     js ''ria em quadrinhos (comic book style) baseada na seguinte descri'' @
     [c_cedilla, a_tilde] @ js ''o: '' @ description @
     js ''. Use cores vibrantes e tra'' @ [c_cedilla] @ js ''os fortes.''"

definition likeness_instruction :: jsstring where
  "likeness_instruction =
     js '' Incorpore as caracter'' @ [i_acute] @
     js ''sticas da pessoa/objeto na imagem enviada para que o personagem se pare'' @
     [c_cedilla] @ js ''a com ela.''"

text \<open>\<open>referenceImageBase64.split(',')[1] || referenceImageBase64\<close>\<close>

definition reference_data :: "jsstring \<Rightarrow> jsstring" where
  "reference_data referenceImageBase64 =
     (case split_on 0x2C referenceImageBase64 of
        s0 # s1 # rest \<Rightarrow> if s1 = [] then referenceImageBase64 else s1
      | _ \<Rightarrow> referenceImageBase64)"

text \<open>
  The parts of the request. \<open>if (referenceImageBase64)\<close> holds for a supplied, non-empty
  string.
\<close>

definition image_parts :: "jsstring \<Rightarrow> jsstring option \<Rightarrow> part list" where
  "image_parts description referenceImageBase64 =
     (case referenceImageBase64 of
        None \<Rightarrow> [\<lparr> part_text = Some (image_prompt description), inlineData = None \<rparr>]
      | Some r \<Rightarrow>
          if r = [] then [\<lparr> part_text = Some (image_prompt description), inlineData = None \<rparr>]
          else
            [\<lparr> part_text = Some (image_prompt description @ likeness_instruction),
               inlineData = None \<rparr>,
             \<lparr> part_text = None,
               inlineData = Some \<lparr> data = Some (reference_data r),
                                   mimeType = Some (js ''image/png'') \<rparr> \<rparr>])"

definition image_request :: "jsstring \<Rightarrow> jsstring option \<Rightarrow> request" where
  "image_request description referenceImageBase64 =
     \<lparr> model = js ''gemini-2.5-flash-image'',
       contents = ContentsParts (image_parts description referenceImageBase64),
       config = ImageConfig (js ''1:1'') \<rparr>"

text \<open>\<open>response.candidates?.[0]?.content?.parts || []\<close>\<close>

definition response_parts :: "response \<Rightarrow> part list" where
  "response_parts response =
     (case candidates response of
        None \<Rightarrow> []
      | Some [] \<Rightarrow> []
      | Some (c # cs) \<Rightarrow>
          (case content c of
             None \<Rightarrow> []
           | Some ct \<Rightarrow> (case parts ct of None \<Rightarrow> [] | Some ps \<Rightarrow> ps)))"

text \<open>A value interpolated into a template literal: \<open>undefined\<close> prints as its name.\<close>

definition interpolate :: "jsstring option \<Rightarrow> jsstring" where
  "interpolate v = (case v of None \<Rightarrow> js ''undefined'' | Some s \<Rightarrow> s)"

text \<open>The \<open>for\<close> loop over the parts, returning from inside the loop.\<close>

fun scan_parts :: "part list \<Rightarrow> jsstring option" where
  "scan_parts [] = None"
| "scan_parts (p # ps) =
     (case inlineData p of
        Some d \<Rightarrow> Some (js ''data:image/png;base64,'' @ interpolate (data d))
      | None \<Rightarrow> scan_parts ps)"

definition generatePanelImage ::
  "jsstring option \<Rightarrow> provider \<Rightarrow> request list \<Rightarrow> jsstring \<Rightarrow> jsstring option \<Rightarrow>
   (error + jsstring option) \<times> request list" where
  "generatePanelImage apiKey provider issued description referenceImageBase64 =
     (case getAI apiKey of
        Inl e \<Rightarrow> (Inl e, issued)
      | Inr ai \<Rightarrow>
          (case generateContent provider ai issued
                  (image_request description referenceImageBase64) of
             (Inl e, issued') \<Rightarrow> (Inl e, issued')
           | (Inr response, issued') \<Rightarrow> (Inr (scan_parts (response_parts response)), issued')))"

subsection \<open>\<open>translateText\<close>\<close>

definition translate_request :: "jsstring \<Rightarrow> jsstring \<Rightarrow> request" where
  "translate_request txt targetLanguage =
     \<lparr> model = js ''gemini-3-flash-preview'',
       contents = ContentsText
         (js ''Traduza o seguinte texto para o idioma '' @ [0x22] @ targetLanguage @ [0x22] @
          js '':'' @ [0x0A, 0x0A] @ txt),
       config = NoConfig \<rparr>"

definition translateText ::
  "jsstring option \<Rightarrow> provider \<Rightarrow> request list \<Rightarrow> jsstring \<Rightarrow> jsstring \<Rightarrow>
   (error + jsstring option) \<times> request list" where
  "translateText apiKey provider issued txt targetLanguage =
     (case getAI apiKey of
        Inl e \<Rightarrow> (Inl e, issued)
      | Inr ai \<Rightarrow>
          (case generateContent provider ai issued (translate_request txt targetLanguage) of
             (Inl e, issued') \<Rightarrow> (Inl e, issued')
           | (Inr response, issued') \<Rightarrow> (Inr (response_text response), issued')))"


section \<open>The HTTP API server and its store\<close>

subsection \<open>The two tables\<close>

text \<open>
  Rows of \<open>comics(id, title, description, created_at)\<close> and of
  \<open>panels(id, comic_id, image_url, caption, order_index)\<close>, each table in insertion order.
  The fields carry the column name after a prefix where the name is taken (\<open>id\<close>,
  \<open>title\<close>). Request bodies are typed as the client's \<open>Comic\<close> and \<open>Panel\<close> interfaces
  type them; a \<open>title\<close> that the client leaves \<open>undefined\<close> is \<open>None\<close> and is bound as
  \<open>NULL\<close>.
\<close>

record comic =
  c_id :: jsstring
  c_title :: jsstring
  c_description :: jsstring
  c_created_at :: nat

record panel =
  p_id :: jsstring
  comic_id :: jsstring
  image_url :: jsstring
  caption :: jsstring
  order_index :: int

text \<open>
  The state of the server: the tables, the number of identifiers \<open>uuidv4\<close> has produced,
  and \<open>foreign_keys\<close>, the connection's setting that decides whether SQLite enforces the
  \<open>FOREIGN KEY\<close> clause of \<open>panels\<close>. The source leaves the setting at the default of the
  binding, so it is a parameter of the model.
\<close>

record server =
  comics :: "comic list"
  panels :: "panel list"
  drawn :: nat
  foreign_keys :: bool

text \<open>
  What the handlers read from outside the store: the identifier generator (the \<open>n\<close>-th
  identifier \<open>uuidv4\<close> returns) and the value of \<open>CURRENT_TIMESTAMP\<close>.
\<close>

record server_env =
  uuidv4 :: "nat \<Rightarrow> jsstring"
  now :: nat

subsection \<open>Requests and replies\<close>

datatype http_request =
    GetComics
  | PostComic "jsstring option" jsstring
  | GetComic jsstring
  | DeleteComic jsstring
  | PostPanel jsstring jsstring jsstring int

record comic_json =
  cj_id :: jsstring
  cj_title :: "jsstring option"
  cj_description :: jsstring

record panel_json =
  pj_id :: jsstring
  pj_image_url :: jsstring
  pj_caption :: jsstring
  pj_order_index :: int

text \<open>
  The JSON bodies the handlers send, and \<open>ErrorPage\<close>, the non-JSON page with which the
  framework's default error handler answers when a handler throws.
\<close>

datatype reply_body =
    ComicList "comic list"
  | ComicCreated comic_json
  | ComicWithPanels comic "panel list"
  | ErrorBody jsstring
  | SuccessBody bool
  | PanelCreated panel_json
  | ErrorPage error

datatype reply = Reply nat reply_body

subsection \<open>The handlers\<close>

text \<open>
  \<open>GET /api/comics\<close>: \<open>SELECT * FROM comics ORDER BY created_at DESC\<close>, the latest
  \<open>created_at\<close> first. Rows with equal \<open>created_at\<close> stay in insertion order (SQL leaves
  their order open).
\<close>

definition list_comics :: "server \<Rightarrow> (error + reply) \<times> server" where
  "list_comics s =
     (Inr (Reply 200 (ComicList (sort_key (\<lambda>c. - int (c_created_at c)) (comics s)))), s)"

text \<open>
  \<open>POST /api/comics\<close>. The \<open>INSERT\<close> throws when \<open>title\<close> is \<open>NULL\<close> (\<open>NOT NULL\<close>) and when
  the identifier is already a key of the table (\<open>PRIMARY KEY\<close>).
\<close>

definition create_comic ::
  "server_env \<Rightarrow> jsstring option \<Rightarrow> jsstring \<Rightarrow> server \<Rightarrow> (error + reply) \<times> server" where
  "create_comic env title description s =
     (let ident = uuidv4 env (drawn s);
          s1 = s\<lparr> drawn := Suc (drawn s) \<rparr>
      in case title of
           None \<Rightarrow> (Inl (SqliteError (js ''NOT NULL constraint failed: comics.title'')), s1)
         | Some t \<Rightarrow>
             if ident \<in> set (map c_id (comics s1))
               then (Inl (SqliteError (js ''UNIQUE constraint failed: comics.id'')), s1)
             else
               (Inr (Reply 200 (ComicCreated
                       \<lparr> cj_id = ident, cj_title = title, cj_description = description \<rparr>)),
                s1\<lparr> comics := comics s1 @
                       [\<lparr> c_id = ident, c_title = t, c_description = description,
                          c_created_at = now env \<rparr>] \<rparr>))"

text \<open>
  \<open>GET /api/comics/:id\<close>: the first row with that identifier, or 404; then
  \<open>SELECT * FROM panels WHERE comic_id = ? ORDER BY order_index ASC\<close>. Rows with equal
  \<open>order_index\<close> are kept in insertion order (SQL leaves their order open).
\<close>

definition get_comic :: "jsstring \<Rightarrow> server \<Rightarrow> (error + reply) \<times> server" where
  "get_comic ident s =
     (case find (\<lambda>c. c_id c = ident) (comics s) of
        None \<Rightarrow> (Inr (Reply 404 (ErrorBody (js ''Comic not found''))), s)
      | Some c \<Rightarrow>
          (Inr (Reply 200 (ComicWithPanels c
                  (sort_key order_index (filter (\<lambda>p. comic_id p = ident) (panels s))))), s))"

text \<open>
  \<open>DELETE /api/comics/:id\<close>: first the panels of the comic, then the comic. No panel
  refers to the comic when its row is deleted, so the foreign key cannot fail.
\<close>

definition delete_comic :: "jsstring \<Rightarrow> server \<Rightarrow> (error + reply) \<times> server" where
  "delete_comic ident s =
     (let s1 = s\<lparr> panels := filter (\<lambda>p. comic_id p \<noteq> ident) (panels s) \<rparr>;
          s2 = s1\<lparr> comics := filter (\<lambda>c. c_id c \<noteq> ident) (comics s1) \<rparr>
      in (Inr (Reply 200 (SuccessBody True)), s2))"

text \<open>
  \<open>POST /api/comics/:id/panels\<close>. The \<open>INSERT\<close> throws when the identifier is already a
  key of the table and, if foreign keys are enforced, when no comic has the identifier
  \<open>:id\<close>. There is no constraint on \<open>order_index\<close>.
\<close>

definition add_panel ::
  "server_env \<Rightarrow> jsstring \<Rightarrow> jsstring \<Rightarrow> jsstring \<Rightarrow> int \<Rightarrow> server \<Rightarrow>
   (error + reply) \<times> server" where
  "add_panel env cid url cap idx s =
     (let ident = uuidv4 env (drawn s);
          s1 = s\<lparr> drawn := Suc (drawn s) \<rparr>
      in if ident \<in> set (map p_id (panels s1))
           then (Inl (SqliteError (js ''UNIQUE constraint failed: panels.id'')), s1)
         else if foreign_keys s1 \<and> cid \<notin> set (map c_id (comics s1))
           then (Inl (SqliteError (js ''FOREIGN KEY constraint failed'')), s1)
         else
           (Inr (Reply 200 (PanelCreated
                   \<lparr> pj_id = ident, pj_image_url = url, pj_caption = cap,
                      pj_order_index = idx \<rparr>)),
            s1\<lparr> panels := panels s1 @
                   [\<lparr> p_id = ident, comic_id = cid, image_url = url, caption = cap,
                      order_index = idx \<rparr>] \<rparr>))"

text \<open>Routing, and the framework's answer to a handler that throws: status 500.\<close>

definition route :: "server_env \<Rightarrow> http_request \<Rightarrow> server \<Rightarrow> (error + reply) \<times> server" where
  "route env req s =
     (case req of
        GetComics \<Rightarrow> list_comics s
      | PostComic title description \<Rightarrow> create_comic env title description s
      | GetComic ident \<Rightarrow> get_comic ident s
      | DeleteComic ident \<Rightarrow> delete_comic ident s
      | PostPanel cid url cap idx \<Rightarrow> add_panel env cid url cap idx s)"

definition serve :: "server_env \<Rightarrow> http_request \<Rightarrow> server \<Rightarrow> reply \<times> server" where
  "serve env req s =
     (case route env req s of
        (Inl e, s') \<Rightarrow> (Reply 500 (ErrorPage e), s')
      | (Inr r, s') \<Rightarrow> (r, s'))"

text \<open>The store after a sequence of requests, from the empty tables.\<close>

definition empty_server :: "bool \<Rightarrow> server" where
  "empty_server fk = \<lparr> comics = [], panels = [], drawn = 0, foreign_keys = fk \<rparr>"

fun serve_all :: "server_env \<Rightarrow> http_request list \<Rightarrow> server \<Rightarrow> server" where
  "serve_all env [] s = s"
| "serve_all env (req # reqs) s = serve_all env reqs (snd (serve env req s))"

text \<open>The panels of one comic have pairwise distinct \<open>order_index\<close>.\<close>

definition order_unique :: "server \<Rightarrow> jsstring \<Rightarrow> bool" where
  "order_unique s cid = distinct (map order_index (filter (\<lambda>p. comic_id p = cid) (panels s)))"


section \<open>The client: \<open>handleCreateComic\<close>\<close>

subsection \<open>The story, as the workflow reads it\<close>

text \<open>
  \<open>generateComicStory\<close> returns whatever \<open>JSON.parse\<close> produced, and its type is \<open>any\<close>. The
  workflow reads \<open>story.panels\<close>, its truth value and its \<open>length\<close>, \<open>story.title\<close>, and
  \<open>visualDescription\<close> and \<open>caption\<close> of each element. The readings are modelled where they
  do not depend on the coercion of numbers and objects:
  \<^item> reading a property of \<open>null\<close> throws a \<open>TypeError\<close>;
  \<^item> a property is \<open>undefined\<close> when the value is not an object or the object has no such
    member (a member written twice has the value written last);
  \<^item> \<open>undefined\<close>, \<open>null\<close>, \<open>false\<close> and the empty string are falsy, an array is truthy;
  \<^item> a title is read when it is a string or absent, an element when it is an object with
    string members \<open>visualDescription\<close> and \<open>caption\<close>, as the response schema requires.
  Every other reading is \<open>PanelsOther\<close>, respectively \<open>None\<close>, and a run that makes it is
  outside the model.
\<close>

definition json_member :: "jsstring \<Rightarrow> (jsstring \<times> json) list \<Rightarrow> json option" where
  "json_member k ms = map_of (rev ms) k"

datatype panels_reading = PanelsThrows | PanelsFalsy | PanelsArray "json list" | PanelsOther

definition read_panels :: "json \<Rightarrow> panels_reading" where
  "read_panels story =
     (case story of
        JNull \<Rightarrow> PanelsThrows
      | JObj ms \<Rightarrow>
          (case json_member (js ''panels'') ms of
             None \<Rightarrow> PanelsFalsy
           | Some JNull \<Rightarrow> PanelsFalsy
           | Some (JBool b) \<Rightarrow> if b then PanelsOther else PanelsFalsy
           | Some (JStr str) \<Rightarrow> if str = [] then PanelsFalsy else PanelsOther
           | Some (JArr vs) \<Rightarrow> PanelsArray vs
           | Some (JNum n) \<Rightarrow> PanelsOther
           | Some (JObj ms') \<Rightarrow> PanelsOther)
      | _ \<Rightarrow> PanelsFalsy)"

text \<open>\<open>story.title\<close>, for a story that is an object: \<open>None\<close> outside, \<open>Some None\<close> for \<open>undefined\<close>.\<close>

definition read_title :: "json \<Rightarrow> jsstring option option" where
  "read_title story =
     (case story of
        JObj ms \<Rightarrow>
          (case json_member (js ''title'') ms of
             None \<Rightarrow> Some None
           | Some (JStr t) \<Rightarrow> Some (Some t)
           | Some _ \<Rightarrow> None)
      | _ \<Rightarrow> None)"

record panel_data =
  visualDescription :: jsstring
  panel_caption :: jsstring

definition decode_panel :: "json \<Rightarrow> panel_data option" where
  "decode_panel v =
     (case v of
        JObj ms \<Rightarrow>
          (case (json_member (js ''visualDescription'') ms, json_member (js ''caption'') ms) of
             (Some (JStr d), Some (JStr c)) \<Rightarrow>
               Some \<lparr> visualDescription = d, panel_caption = c \<rparr>
           | _ \<Rightarrow> None)
      | _ \<Rightarrow> None)"

fun decode_panels :: "json list \<Rightarrow> panel_data list option" where
  "decode_panels [] = Some []"
| "decode_panels (v # vs) =
     (case decode_panel v of
        None \<Rightarrow> None
      | Some p \<Rightarrow> (case decode_panels vs of None \<Rightarrow> None | Some ps \<Rightarrow> Some (p # ps)))"

subsection \<open>The state of the component and of its surroundings\<close>

datatype view = Home | Editor | Viewer

record ui_comic =
  uc_id :: jsstring
  uc_title :: "jsstring option"
  uc_description :: jsstring
  uc_panels :: "panel_json list option"

text \<open>The state variables of \<open>App\<close> that \<open>handleCreateComic\<close> reads or writes.\<close>

record ui_state =
  ui_comics :: "ui_comic list"
  currentComic :: "ui_comic option"
  isCreating :: bool
  isLoading :: bool
  prompt :: jsstring
  userImage :: "jsstring option"
  language :: jsstring
  current_view :: view
  generationProgress :: "(nat \<times> nat) option"

text \<open>
  The world a run acts on: the component's state, the server, the log of requests sent to
  the AI provider, the log of HTTP requests sent to the server, and the messages shown with
  \<open>alert\<close>.
\<close>

record world =
  ui :: ui_state
  srv :: server
  issued :: "request list"
  fetched :: "http_request list"
  alerts :: "jsstring list"

text \<open>What a run reads from outside: the API key, the provider, and the server's surroundings.\<close>

record app_env =
  apiKey :: "jsstring option"
  ai_provider :: provider
  backend :: server_env

text \<open>
  \<open>fetch\<close>: the request is logged and served. The server is reached by every request;
  a failure of the network is not modelled.
\<close>

definition fetch :: "app_env \<Rightarrow> http_request \<Rightarrow> world \<Rightarrow> reply \<times> world" where
  "fetch env req w =
     (case serve (backend env) req (srv w) of
        (r, s') \<Rightarrow> (r, w\<lparr> srv := s', fetched := fetched w @ [req] \<rparr>))"

text \<open>\<open>res.json()\<close> rejects with a \<open>SyntaxError\<close> when the body is not JSON.\<close>

definition reply_json :: "reply \<Rightarrow> error + reply_body" where
  "reply_json r =
     (case r of
        Reply st (ErrorPage e) \<Rightarrow> Inl (SyntaxError (js ''Unexpected token''))
      | Reply st b \<Rightarrow> Inr b)"

definition set_ui :: "(ui_state \<Rightarrow> ui_state) \<Rightarrow> world \<Rightarrow> world" where
  "set_ui f w = w\<lparr> ui := f (ui w) \<rparr>"

subsection \<open>The loop over the panels of the story\<close>

text \<open>\<open>userImage || undefined\<close>: a non-empty image, and nothing otherwise.\<close>

definition reference_image :: "world \<Rightarrow> jsstring option" where
  "reference_image w =
     (case userImage (ui w) of None \<Rightarrow> None | Some img \<Rightarrow> if img = [] then None else Some img)"

text \<open>
  One iteration per panel, \<open>i\<close> counting from the position of the first panel given. The
  result is the exception that ended the loop, if any, the world, and the array \<open>panels\<close>.
  \<open>if (imageUrl)\<close> holds for a non-empty string. The path of the request is built from
  \<open>newComic.id\<close>. The server answers this request with the created panel or with the error
  page, so the last branch is never taken; it makes the function total.
\<close>

fun panel_loop ::
  "app_env \<Rightarrow> jsstring \<Rightarrow> nat \<Rightarrow> panel_data list \<Rightarrow> world \<Rightarrow> panel_json list \<Rightarrow>
   error option \<times> world \<times> panel_json list" where
  "panel_loop env newComic_id i [] w acc = (None, w, acc)"
| "panel_loop env newComic_id i (panelData # rest) w acc =
     (let w1 = set_ui (\<lambda>u. u\<lparr> generationProgress :=
                  (case generationProgress u of
                     None \<Rightarrow> None
                   | Some (cur, tot) \<Rightarrow> Some (i + 1, tot)) \<rparr>) w
      in case generatePanelImage (apiKey env) (ai_provider env) (issued w1)
                (visualDescription panelData) (reference_image w) of
           (Inl e, issued') \<Rightarrow> (Some e, w1\<lparr> issued := issued' \<rparr>, acc)
         | (Inr imageUrl, issued') \<Rightarrow>
             (let w2 = w1\<lparr> issued := issued' \<rparr>
              in case imageUrl of
                   None \<Rightarrow> panel_loop env newComic_id (i + 1) rest w2 acc
                 | Some url \<Rightarrow>
                     if url = [] then panel_loop env newComic_id (i + 1) rest w2 acc
                     else
                       (case fetch env
                               (PostPanel newComic_id url (panel_caption panelData) (int i)) w2 of
                          (panelRes, w3) \<Rightarrow>
                            (case reply_json panelRes of
                               Inl e \<Rightarrow> (Some e, w3, acc)
                             | Inr (PanelCreated p) \<Rightarrow>
                                 panel_loop env newComic_id (i + 1) rest w3 (acc @ [p])
                             | Inr other \<Rightarrow>
                                 (Some (TypeError (js ''unexpected reply'')), w3, acc)))))"

subsection \<open>\<open>handleCreateComic\<close>\<close>

text \<open>The \<open>finally\<close> block.\<close>

definition finally_block :: "world \<Rightarrow> world" where
  "finally_block w =
     set_ui (\<lambda>u. u\<lparr> isLoading := False, isCreating := False, generationProgress := None \<rparr>) w"

text \<open>The \<open>catch\<close> block; \<open>console.error\<close> is not modelled.\<close>

definition catch_block :: "world \<Rightarrow> world" where
  "catch_block w =
     w\<lparr> alerts := alerts w @ [js ''Ocorreu um erro ao gerar sua HQ. Tente novamente.''] \<rparr>"

text \<open>The error thrown when no panels came back.\<close>

definition no_story_error :: error where
  "no_story_error = Error (js ''Falha ao gerar hist'' @ [o_acute] @ js ''ria'')"

text \<open>
  The body of the \<open>try\<close> block, after the story has come back: the exception thrown, if
  any, and the world. \<open>None\<close> in the outer option: the run makes a reading that is outside the
  model. The server answers the request with the created comic or with the error page, so
  the last branch is never taken.
\<close>

definition create_from_story ::
  "app_env \<Rightarrow> json \<Rightarrow> world \<Rightarrow> (error option \<times> world) option" where
  "create_from_story env story w =
     (case read_panels story of
        PanelsThrows \<Rightarrow>
          Some (Some (TypeError (js ''Cannot read properties of null (reading '' @ [0x27] @
                                 js ''panels'' @ [0x27] @ js '')'')), w)
      | PanelsFalsy \<Rightarrow> Some (Some no_story_error, w)
      | PanelsOther \<Rightarrow> None
      | PanelsArray vs \<Rightarrow>
          if length vs = 0 then Some (Some no_story_error, w)
          else
            (case (read_title story, decode_panels vs) of
               (Some title, Some ps) \<Rightarrow>
                 (let w2 = set_ui (\<lambda>u. u\<lparr> generationProgress := Some (0, length ps) \<rparr>) w
                  in case fetch env (PostComic title (prompt (ui w2))) w2 of
                       (res, w3) \<Rightarrow>
                         (case reply_json res of
                            Inl e \<Rightarrow> Some (Some e, w3)
                          | Inr (ComicCreated newComic) \<Rightarrow>
                              (case panel_loop env (cj_id newComic) 0 ps w3 [] of
                                 (Some e, w4, acc) \<Rightarrow> Some (Some e, w4)
                               | (None, w4, acc) \<Rightarrow>
                                   (let fullComic =
                                          \<lparr> uc_id = cj_id newComic,
                                            uc_title = cj_title newComic,
                                            uc_description = cj_description newComic,
                                            uc_panels = Some acc \<rparr>
                                    in Some (None,
                                         set_ui (\<lambda>u. u\<lparr> ui_comics := fullComic # ui_comics u,
                                                         currentComic := Some fullComic,
                                                         current_view := Viewer,
                                                         prompt := [],
                                                         userImage := None \<rparr>) w4)))
                          | Inr other \<Rightarrow>
                              Some (Some (TypeError (js ''unexpected reply'')), w3)))
             | _ \<Rightarrow> None))"

text \<open>The \<open>try\<close> block: story generation, then the rest.\<close>

definition try_block :: "app_env \<Rightarrow> world \<Rightarrow> (error option \<times> world) option" where
  "try_block env w =
     (case generateComicStory (apiKey env) (ai_provider env) (issued w)
             (prompt (ui w)) (Some (language (ui w))) of
        (Inl e, issued') \<Rightarrow> Some (Some e, w\<lparr> issued := issued' \<rparr>)
      | (Inr story, issued') \<Rightarrow> create_from_story env story (w\<lparr> issued := issued' \<rparr>))"

text \<open>\<open>if (!prompt) return;\<close> comes before the \<open>try\<close>: nothing changes.\<close>

definition handleCreateComic :: "app_env \<Rightarrow> world \<Rightarrow> world option" where
  "handleCreateComic env w =
     (if prompt (ui w) = [] then Some w
      else
        (let w1 = set_ui (\<lambda>u. u\<lparr> isLoading := True, generationProgress := Some (0, 0) \<rparr>) w
         in case try_block env w1 of
              None \<Rightarrow> None
            | Some (None, w2) \<Rightarrow> Some (finally_block w2)
            | Some (Some e, w2) \<Rightarrow> Some (finally_block (catch_block w2))))"


section \<open>Vocabulary of the specification and sample surroundings\<close>

text \<open>A raw text wrapped in markdown fencing: \<open>```json\<close>, newline, the text, newline, \<open>```\<close>.\<close>

definition fenced :: "jsstring \<Rightarrow> jsstring" where
  "fenced t = fence_json @ [0x0A] @ t @ [0x0A] @ fence"

text \<open>The degenerate result as the specification writes it: \<open>{title: "Untitled", panels: []}\<close>.\<close>

definition spec_degenerate_story :: json where
  "spec_degenerate_story = JObj [(js ''title'', JStr (js ''Untitled'')), (js ''panels'', JArr [])]"

text \<open>The substring after the first comma, in the specification's words.\<close>

definition after_first_comma :: "jsstring \<Rightarrow> jsstring" where
  "after_first_comma s = tl (dropWhile (\<lambda>c. c \<noteq> 0x2C) s)"

text \<open>A provider that answers every request with the same response.\<close>

definition always :: "response \<Rightarrow> provider" where
  "always r n k q = Inr r"

text \<open>A provider that answers the \<open>n\<close>-th request with the \<open>n\<close>-th response of a script.\<close>

definition scripted :: "response list \<Rightarrow> provider" where
  "scripted rs n k q = (if n < length rs then Inr (rs ! n) else Inl (Error (js ''no response'')))"

definition text_response :: "jsstring option \<Rightarrow> response" where
  "text_response t = \<lparr> response_text = t, candidates = None \<rparr>"

definition parts_response :: "part list \<Rightarrow> response" where
  "parts_response ps =
     \<lparr> response_text = None,
       candidates = Some [\<lparr> content = Some \<lparr> parts = Some ps \<rparr> \<rparr>] \<rparr>"

definition image_part :: "jsstring \<Rightarrow> part" where
  "image_part d =
     \<lparr> part_text = None,
       inlineData = Some \<lparr> data = Some d, mimeType = Some (js ''image/png'') \<rparr> \<rparr>"

definition text_part :: "jsstring \<Rightarrow> part" where
  "text_part t = \<lparr> part_text = Some t, inlineData = None \<rparr>"

text \<open>An identifier generator with pairwise distinct identifiers: \<open>a\<close>, \<open>aa\<close>, \<open>aaa\<close>, ...\<close>

definition sample_backend :: server_env where
  "sample_backend = \<lparr> uuidv4 = (\<lambda>n. replicate (Suc n) 0x61), now = 0 \<rparr>"

text \<open>A store with one comic \<open>a\<close>, two of its panels out of order, and a panel of another comic.\<close>

definition sample_store :: server where
  "sample_store =
     \<lparr> comics = [\<lparr> c_id = js ''a'', c_title = js ''T'', c_description = js ''D'', c_created_at = 0 \<rparr>],
       panels = [\<lparr> p_id = js ''aa'', comic_id = js ''a'', image_url = js ''u2'', caption = js ''two'',
                    order_index = 2 \<rparr>,
                 \<lparr> p_id = js ''aaa'', comic_id = js ''a'', image_url = js ''u0'', caption = js ''zero'',
                    order_index = 0 \<rparr>,
                 \<lparr> p_id = js ''aaaa'', comic_id = js ''b'', image_url = js ''u1'', caption = js ''one'',
                    order_index = 1 \<rparr>],
       drawn = 4, foreign_keys = False \<rparr>"

text \<open>The component with the prompt \<open>cats\<close>, in front of an empty server.\<close>

definition initial_ui :: ui_state where
  "initial_ui =
     \<lparr> ui_comics = [], currentComic = None, isCreating = True, isLoading = False,
       prompt = js ''cats'', userImage = None, language = js ''pt-BR'', current_view = Home,
       generationProgress = None \<rparr>"

definition initial_world :: world where
  "initial_world =
     \<lparr> ui = initial_ui, srv = empty_server True, issued = [], fetched = [], alerts = [] \<rparr>"

definition sample_env :: "provider \<Rightarrow> app_env" where
  "sample_env provider =
     \<lparr> apiKey = Some (js ''k''), ai_provider = provider, backend = sample_backend \<rparr>"


text \<open>A story of three panels, and a provider whose second answer carries no image.\<close>

definition three_panels :: "panel_data list" where
  "three_panels =
     [\<lparr> visualDescription = js ''d0'', panel_caption = js ''c0'' \<rparr>,
      \<lparr> visualDescription = js ''d1'', panel_caption = js ''c1'' \<rparr>,
      \<lparr> visualDescription = js ''d2'', panel_caption = js ''c2'' \<rparr>]"



text \<open>
  The text of a story with these three panels, and a provider that answers the story request
  with the fenced text and the three image requests as above.
\<close>

definition story_text :: jsstring where
  "story_text = js ''{\"title\":\"T\",\"panels\":[{\"visualDescription\":\"d0\",\"caption\":\"c0\"},{\"visualDescription\":\"d1\",\"caption\":\"c1\"},{\"visualDescription\":\"d2\",\"caption\":\"c2\"}]}''"

definition full_script :: provider where
  "full_script =
     scripted [text_response (Some (fenced story_text)),
               parts_response [image_part (js ''AAAA'')],
               parts_response [text_part (js ''no image'')],
               parts_response [image_part (js ''CCCC'')]]"

text \<open>
  Notions for the locality of the parser. A text begins with a character of a kind; a
  character continues a number when a number read up to it would go on. A parse of \<open>s\<close> into
  \<open>v\<close> with rest \<open>rest\<close> is local when \<open>s\<close> is a non-empty consumed part, not ending in
  whitespace, followed by \<open>rest\<close>, and the consumed part parses into \<open>v\<close> in front of every
  rest that does not continue a number.
\<close>

definition begins :: "(code_unit \<Rightarrow> bool) \<Rightarrow> jsstring \<Rightarrow> bool" where
  "begins P r = (case r of [] \<Rightarrow> False | c # cs \<Rightarrow> P c)"

definition continues_number :: "code_unit \<Rightarrow> bool" where
  "continues_number c \<longleftrightarrow> is_digit c \<or> c = 0x2E \<or> c = 0x65 \<or> c = 0x45"

definition local_parse ::
  "(jsstring \<Rightarrow> ('a \<times> jsstring) option) \<Rightarrow> jsstring \<Rightarrow> 'a \<Rightarrow> jsstring \<Rightarrow> bool" where
  "local_parse p s v rest \<longleftrightarrow>
     (\<exists>pre. s = pre @ rest \<and> pre \<noteq> [] \<and> \<not> js_whitespace (last pre) \<and>
        (\<forall>r'. \<not> begins continues_number r' \<longrightarrow> p (pre @ r') = Some (v, r')))"






section \<open>Evaluation rules\<close>

lemmas json_eval =
  JSON_parse_def js_def skip_ws_def json_ws_def parse_value.simps parse_elements.simps
  parse_members.simps literal_def parse_number_def number_int_def number_frac_def
  number_exp_def digits1_def is_digit_def cons_fst_def hex4_def hex_val_def escape_char_def


section \<open>Locality of the parser\<close>


lemma begins_Cons [simp]: "begins P (c # cs) = P c"
  by (simp add: begins_def)

lemma begins_append: "xs \<noteq> [] \<Longrightarrow> begins P (xs @ ys) = begins P xs"
  by (cases xs) auto











lemma takeWhile_stop:
  "\<forall>x \<in> set ds. P x \<Longrightarrow> \<not> begins P r \<Longrightarrow> takeWhile P (ds @ r) = ds"
  by (cases r) (simp_all add: takeWhile_append2)

lemma dropWhile_stop:
  "\<forall>x \<in> set ds. P x \<Longrightarrow> \<not> begins P r \<Longrightarrow> dropWhile P (ds @ r) = r"
  by (cases r) (simp_all add: dropWhile_append2)











lemma local_parseE:
  assumes "local_parse p s v rest"
  obtains pre where "s = pre @ rest" "pre \<noteq> []" "\<not> js_whitespace (last pre)"
    "\<And>r'. \<not> begins continues_number r' \<Longrightarrow> p (pre @ r') = Some (v, r')"
  using assms unfolding local_parse_def by blast













lemmas text_eval = trim_def js_whitespace_def fence_def fence_json_def


section \<open>Fence stripping and trimming\<close>

lemma take_pattern_append:
  assumes "x \<notin> set p"
  shows "take (length p) (t @ x # r) = p \<longleftrightarrow> take (length p) t = p"
proof (cases "length p \<le> length t")
  case True
  then show ?thesis by simp
next
  case False
  then have lt: "length t < length p" by simp
  have a: "take (length p) t \<noteq> p"
  proof
    assume "take (length p) t = p"
    then have "length (take (length p) t) = length p" by simp
    with lt show False by simp
  qed
  have b: "take (length p) (t @ x # r) \<noteq> p"
  proof
    assume e: "take (length p) (t @ x # r) = p"
    from lt obtain m where m: "length p - length t = Suc m" by (cases "length p - length t") auto
    have "take (length p) (t @ x # r) = t @ x # take m r" using m by simp
    with e have "x \<in> set p" by (metis in_set_conv_decomp)
    with assms show False by simp
  qed
  from a b show ?thesis by simp
qed

lemma nl_not_in_fence_json: "0x0A \<notin> set fence_json"
  by (simp add: fence_json_def js_def)

lemma nl_not_in_fence: "0x0A \<notin> set fence"
  by (simp add: fence_def js_def)

lemma fence_json_nonempty: "[] \<noteq> fence_json"
  by (simp add: fence_json_def js_def)

lemma fence_nonempty: "[] \<noteq> fence"
  by (simp add: fence_def js_def)

lemma take_eq_length: "take n t = p \<Longrightarrow> n = length p \<Longrightarrow> length p \<le> length t"
  by (metis length_take min.cobounded1)

lemma drop_append_le: "n \<le> length xs \<Longrightarrow> drop n (xs @ ys) = drop n xs @ ys"
  by simp

lemma strip_fences_newline:
  "strip_fences (t @ 0x0A # r) = strip_fences t @ 0x0A # strip_fences r"
proof (induction t rule: strip_fences.induct)
  case 1
  have "take (length fence_json) (0x0A # r) \<noteq> fence_json"
    using take_pattern_append [OF nl_not_in_fence_json, of "[]" r] fence_json_nonempty by simp
  moreover have "take (length fence) (0x0A # r) \<noteq> fence"
    using take_pattern_append [OF nl_not_in_fence, of "[]" r] fence_nonempty by simp
  ultimately show ?case by simp
next
  case (2 c cs)
  note fj = take_pattern_append [OF nl_not_in_fence_json, of "c # cs" r]
  note f = take_pattern_append [OF nl_not_in_fence, of "c # cs" r]
  show ?case
  proof (cases "take (length fence_json) (c # cs) = fence_json")
    case True
    then have len: "length fence_json \<le> length (c # cs)"
      by (rule take_eq_length) simp
    have "strip_fences ((c # cs) @ 0x0A # r)
          = strip_fences (drop (length fence_json) ((c # cs) @ 0x0A # r))"
      using True fj by simp
    also have "drop (length fence_json) ((c # cs) @ 0x0A # r)
          = drop (length fence_json) (c # cs) @ 0x0A # r"
      using len by (rule drop_append_le)
    finally show ?thesis using True "2.IH"(1) by simp
  next
    case nj: False
    show ?thesis
    proof (cases "take (length fence) (c # cs) = fence")
      case True
      then have len: "length fence \<le> length (c # cs)"
        by (rule take_eq_length) simp
      have "strip_fences ((c # cs) @ 0x0A # r)
            = strip_fences (drop (length fence) ((c # cs) @ 0x0A # r))"
        using True nj f fj by simp
      also have "drop (length fence) ((c # cs) @ 0x0A # r)
            = drop (length fence) (c # cs) @ 0x0A # r"
        using len by (rule drop_append_le)
      finally show ?thesis using True nj "2.IH"(2) by simp
    next
      case False
      then show ?thesis using nj f fj "2.IH"(3) by simp
    qed
  qed
qed

lemma strip_fences_fence: "strip_fences fence = []"
  by (simp add: fence_def fence_json_def js_def)

lemma strip_fences_fenced: "strip_fences (fenced t) = 0x0A # strip_fences t @ [0x0A]"
proof -
  have "strip_fences (fenced t) = strip_fences ([] @ 0x0A # (t @ 0x0A # fence))"
    by (simp add: fenced_def fence_def fence_json_def js_def)
  also have "\<dots> = strip_fences [] @ 0x0A # strip_fences (t @ 0x0A # fence)"
    by (rule strip_fences_newline)
  also have "\<dots> = 0x0A # strip_fences t @ [0x0A]"
    by (simp add: strip_fences_newline strip_fences_fence)
  finally show ?thesis .
qed

lemma js_whitespace_nl: "js_whitespace 0x0A"
  by (simp add: js_whitespace_def)

lemma trim_snoc_ws: "js_whitespace w \<Longrightarrow> trim (x @ [w]) = trim x"
proof (cases "\<forall>c \<in> set x. js_whitespace c")
  case True
  assume w: "js_whitespace w"
  have a: "dropWhile js_whitespace (x @ [w]) = []"
    by (rule dropWhile_eq_Nil_conv[THEN iffD2]) (use True w in simp)
  have b: "dropWhile js_whitespace x = []"
    by (rule dropWhile_eq_Nil_conv[THEN iffD2]) (use True in simp)
  show ?thesis unfolding trim_def a b ..
next
  case False
  assume w: "js_whitespace w"
  from False obtain c where c: "c \<in> set x" "\<not> js_whitespace c" by blast
  then have "dropWhile js_whitespace (x @ [w]) = dropWhile js_whitespace x @ [w]"
    by (rule dropWhile_append1)
  with w show ?thesis by (simp add: trim_def)
qed

lemma trim_cons_ws: "js_whitespace w \<Longrightarrow> trim (w # x) = trim x"
  by (simp add: trim_def)

lemma clean_fenced: "trim (strip_fences (fenced t)) = trim (strip_fences t)"
  using trim_snoc_ws [OF js_whitespace_nl, of "0x0A # strip_fences t"]
  by (simp add: strip_fences_fenced trim_cons_ws js_whitespace_nl)

lemma fenced_nonempty: "fenced t \<noteq> []"
  by (simp add: fenced_def fence_json_def js_def)

lemma parse_story_fenced: "t \<noteq> [] \<Longrightarrow> parse_story (Some (fenced t)) = parse_story (Some t)"
  by (simp add: parse_story_def fenced_nonempty clean_fenced)



section \<open>Properties of the AI service\<close>

subsection \<open>Texts that do not parse\<close>

lemma clean_not_json: "JSON_parse (trim (strip_fences (js ''not json''))) = None"
  by (simp add: json_eval text_eval)

lemma clean_empty_object: "JSON_parse (trim (strip_fences (js ''{}''))) = Some (JObj [])"
  by (simp add: json_eval text_eval)

lemma fenced_array_raw: "JSON_parse (fenced (js ''[]'')) = None"
  by (simp add: json_eval text_eval fenced_def)

lemma fenced_array_clean: "JSON_parse (trim (strip_fences (fenced (js ''[]'')))) = Some (JArr [])"
  by (simp add: json_eval text_eval fenced_def)

text \<open>
  C1, as stated, fails. For the unparseable text \<open>not json\<close> the result is the value of
  the \<open>catch\<close> block, whose title is not \<open>Untitled\<close>; for a response without text the
  result is the empty object, which has neither a title nor panels; and the fenced text
  \<open>[]\<close>, which is not JSON as it stands, is parsed after the fences are stripped.
\<close>

theorem degenerate_result_counterexample:
  "fst (generateComicStory (Some (js ''k'')) (always (text_response (Some (js ''not json''))))
          [] (js ''cats'') None) \<noteq> Inr spec_degenerate_story \<and>
   fst (generateComicStory (Some (js ''k'')) (always (text_response None)) [] (js ''cats'') None)
     = Inr (JObj []) \<and>
   JSON_parse (fenced (js ''[]'')) = None \<and>
   fst (generateComicStory (Some (js ''k'')) (always (text_response (Some (fenced (js ''[]'')))))
          [] (js ''cats'') None) = Inr (JArr [])"
proof -
  have k: "getAI (Some (js ''k'')) = Inr (js ''k'')"
    by (simp add: getAI_def js_def)
  have f: "fenced (js ''[]'') \<noteq> []" by (rule fenced_nonempty)
  have n: "js ''not json'' \<noteq> []" by (simp add: js_def)
  have "fallback_story \<noteq> spec_degenerate_story"
    by (simp add: fallback_story_def spec_degenerate_story_def js_def)
  then show ?thesis
    using f n
    by (simp add: generateComicStory_def generateContent_def k always_def text_response_def
        parse_story_def clean_not_json clean_empty_object fenced_array_raw fenced_array_clean)
qed

text \<open>
  C1, amended. When the client is built and the provider answers: for an absent or empty
  response text \<open>generateComicStory\<close> returns the empty object \<open>{}\<close>; for every other
  response text whose fence-stripped, trimmed form \<open>JSON.parse\<close> rejects, it returns
  the object with title \<open>Historia Sem Titulo\<close>, written with U+00F3 for its first \<open>o\<close> and
  U+00ED for its second \<open>i\<close>, and with the empty array as panels.
  In both cases it returns normally.
\<close>

theorem generateComicStory_parse_failure:
  assumes "getAI key = Inr ai"
    and "provider (length log) ai
           (story_request p (case lang of None \<Rightarrow> js ''pt-BR'' | Some l \<Rightarrow> l)) = Inr r"
  shows "((response_text r = None \<or> response_text r = Some []) \<longrightarrow>
            fst (generateComicStory key provider log p lang) = Inr (JObj [])) \<and>
         (\<forall>t. response_text r = Some t \<and> t \<noteq> [] \<and> JSON_parse (trim (strip_fences t)) = None \<longrightarrow>
            fst (generateComicStory key provider log p lang)
              = Inr (JObj [(js ''title'',
                            JStr (js ''Hist'' @ [0xF3] @ js ''ria Sem T'' @ [0xED] @ js ''tulo'')),
                           (js ''panels'', JArr [])]))"
  using assms
  by (auto simp: generateComicStory_def generateContent_def parse_story_def clean_empty_object
      fallback_story_def o_acute_def i_acute_def)

text \<open>The amended C1 at a response without text and at the text \<open>not json\<close>.\<close>

theorem generateComicStory_parse_failure_witness:
  "fst (generateComicStory (Some (js ''k'')) (always (text_response None)) [] (js ''cats'') None)
     = Inr (JObj []) \<and>
   fst (generateComicStory (Some (js ''k'')) (always (text_response (Some (js ''not json''))))
          [] (js ''cats'') None)
     = Inr (JObj [(js ''title'',
                   JStr (js ''Hist'' @ [0xF3] @ js ''ria Sem T'' @ [0xED] @ js ''tulo'')),
                  (js ''panels'', JArr [])])"
proof -
  have k: "getAI (Some (js ''k'')) = Inr (js ''k'')"
    by (simp add: getAI_def js_def)
  let ?r1 = "text_response None"
  let ?r2 = "text_response (Some (js ''not json''))"
  have a1: "always ?r1 (length []) (js ''k'')
              (story_request (js ''cats'') (case None of None \<Rightarrow> js ''pt-BR'' | Some l \<Rightarrow> l)) = Inr ?r1"
    by (simp add: always_def)
  have a2: "always ?r2 (length []) (js ''k'')
              (story_request (js ''cats'') (case None of None \<Rightarrow> js ''pt-BR'' | Some l \<Rightarrow> l)) = Inr ?r2"
    by (simp add: always_def)
  have n: "js ''not json'' \<noteq> []" by (simp add: js_def)
  from generateComicStory_parse_failure [where provider = "always ?r1" and log = "[]" and lang = None, OF k a1]
    generateComicStory_parse_failure [where provider = "always ?r2" and log = "[]" and lang = None, OF k a2]
  show ?thesis
    using n clean_not_json by (simp add: text_response_def)
qed

subsection \<open>Fenced responses\<close>











subsection \<open>The image in the response\<close>

lemma scan_parts_none: "(\<forall>q \<in> set ps. inlineData q = None) \<Longrightarrow> scan_parts ps = None"
  by (induction ps) auto

lemma scan_parts_first:
  "(\<forall>q \<in> set pre. inlineData q = None) \<Longrightarrow> inlineData p = Some dat \<Longrightarrow>
   scan_parts (pre @ p # post) = Some (js ''data:image/png;base64,'' @ interpolate (data dat))"
  by (induction pre) auto

text \<open>
  C7. When the client is built and the provider answers, \<open>generatePanelImage\<close> returns the
  data of the first part, in order, that carries inline data, behind the prefix
  \<open>data:image/png;base64,\<close>; when no part carries inline data it returns \<open>null\<close>, not an
  error. The parts are those of the first candidate of the response.
\<close>

theorem generatePanelImage_first_inline:
  assumes "getAI key = Inr ai"
    and "provider (length log) ai (image_request descr ref) = Inr r"
  shows "(\<forall>pre p post dat.
            response_parts r = pre @ p # post \<and> (\<forall>q \<in> set pre. inlineData q = None) \<and>
            inlineData p = Some dat \<longrightarrow>
            fst (generatePanelImage key provider log descr ref)
              = Inr (Some (js ''data:image/png;base64,'' @ interpolate (data dat)))) \<and>
         ((\<forall>q \<in> set (response_parts r). inlineData q = None) \<longrightarrow>
            fst (generatePanelImage key provider log descr ref) = Inr None)"
  using assms
  by (auto simp: generatePanelImage_def generateContent_def scan_parts_none scan_parts_first)

text \<open>C7 at a response with a text part and two images, and at one without an image.\<close>

theorem generatePanelImage_first_inline_witness:
  "fst (generatePanelImage (Some (js ''k''))
          (always (parts_response [text_part (js ''here''), image_part (js ''AAAA''), image_part (js ''BBBB'')]))
          [] (js ''a cat'') None)
     = Inr (Some (js ''data:image/png;base64,AAAA'')) \<and>
   fst (generatePanelImage (Some (js ''k'')) (always (parts_response [text_part (js ''no image'')]))
          [] (js ''a cat'') None)
     = Inr None"
proof -
  have k: "getAI (Some (js ''k'')) = Inr (js ''k'')"
    by (simp add: getAI_def js_def)
  let ?r1 = "parts_response [text_part (js ''here''), image_part (js ''AAAA''), image_part (js ''BBBB'')]"
  let ?r2 = "parts_response [text_part (js ''no image'')]"
  have a1: "always ?r1 (length []) (js ''k'') (image_request (js ''a cat'') None) = Inr ?r1"
    by (simp add: always_def)
  have a2: "always ?r2 (length []) (js ''k'') (image_request (js ''a cat'') None) = Inr ?r2"
    by (simp add: always_def)
  have p1: "response_parts ?r1 = [text_part (js ''here'')] @ image_part (js ''AAAA'') # [image_part (js ''BBBB'')]"
    by (simp add: response_parts_def parts_response_def)
  have p2: "response_parts ?r2 = [text_part (js ''no image'')]"
    by (simp add: response_parts_def parts_response_def)
  from generatePanelImage_first_inline
         [where provider = "always ?r1" and log = "[]", OF k a1, THEN conjunct1, rule_format,
          of "[text_part (js ''here'')]" "image_part (js ''AAAA'')" "[image_part (js ''BBBB'')]"
             "\<lparr> data = Some (js ''AAAA''), mimeType = Some (js ''image/png'') \<rparr>"] p1
  have "fst (generatePanelImage (Some (js ''k'')) (always ?r1) [] (js ''a cat'') None)
          = Inr (Some (js ''data:image/png;base64,'' @ interpolate (Some (js ''AAAA''))))"
    by (simp add: text_part_def image_part_def)
  moreover from generatePanelImage_first_inline
         [where provider = "always ?r2" and log = "[]", OF k a2, THEN conjunct2] p2
  have "fst (generatePanelImage (Some (js ''k'')) (always ?r2) [] (js ''a cat'') None) = Inr None"
    by (simp add: text_part_def)
  ultimately show ?thesis by (simp add: interpolate_def js_def)
qed

subsection \<open>The missing credential\<close>

text \<open>
  C8. When \<open>GEMINI_API_KEY\<close> is not set, building the client throws the error
  \<open>GEMINI_API_KEY is not set\<close>, and each of \<open>generateComicStory\<close>, \<open>generatePanelImage\<close>
  and \<open>translateText\<close> fails with it, the log of requests to the provider unchanged.
\<close>

theorem missing_credential:
  "getAI None = Inl (Error (js ''GEMINI_API_KEY is not set'')) \<and>
   generateComicStory None provider log p lang
     = (Inl (Error (js ''GEMINI_API_KEY is not set'')), log) \<and>
   generatePanelImage None provider log d ref
     = (Inl (Error (js ''GEMINI_API_KEY is not set'')), log) \<and>
   translateText None provider log txt target
     = (Inl (Error (js ''GEMINI_API_KEY is not set'')), log)"
  by (simp add: getAI_def generateComicStory_def generatePanelImage_def translateText_def)

text \<open>C8 at three concrete calls.\<close>

theorem missing_credential_witness:
  "generateComicStory None (always (text_response (Some (js ''{}'')))) [] (js ''cats'') None
     = (Inl (Error (js ''GEMINI_API_KEY is not set'')), []) \<and>
   generatePanelImage None (always (parts_response [image_part (js ''AAAA'')])) [] (js ''a cat'') None
     = (Inl (Error (js ''GEMINI_API_KEY is not set'')), []) \<and>
   translateText None (always (text_response (Some (js ''gato'')))) [] (js ''cat'') (js ''pt-BR'')
     = (Inl (Error (js ''GEMINI_API_KEY is not set'')), [])"
  using missing_credential [of "always (text_response (Some (js ''{}'')))" "[]" "js ''cats''" None]
    missing_credential [of "always (parts_response [image_part (js ''AAAA'')])" "[]" _ _ "js ''a cat''" None]
    missing_credential [of "always (text_response (Some (js ''gato'')))" "[]" _ _ _ _ "js ''cat''" "js ''pt-BR''"]
  by simp

subsection \<open>The reference image\<close>

lemma split_on_first:
  "split_on c s =
     takeWhile (\<lambda>x. x \<noteq> c) s #
     (if c \<in> set s then split_on c (tl (dropWhile (\<lambda>x. x \<noteq> c) s)) else [])"
  by (induction s) (auto split: list.splits)

lemma reference_data_segment:
  "reference_data r =
     (if 0x2C \<in> set r \<and> takeWhile (\<lambda>x. x \<noteq> 0x2C) (after_first_comma r) \<noteq> []
      then takeWhile (\<lambda>x. x \<noteq> 0x2C) (after_first_comma r) else r)"
proof (cases "0x2C \<in> set r")
  case True
  have "split_on 0x2C r = takeWhile (\<lambda>x. x \<noteq> 0x2C) r # split_on 0x2C (after_first_comma r)"
    using True by (subst split_on_first) (simp add: after_first_comma_def)
  also have "split_on 0x2C (after_first_comma r) =
      takeWhile (\<lambda>x. x \<noteq> 0x2C) (after_first_comma r) #
      (if 0x2C \<in> set (after_first_comma r)
       then split_on 0x2C (tl (dropWhile (\<lambda>x. x \<noteq> 0x2C) (after_first_comma r))) else [])"
    by (rule split_on_first)
  finally show ?thesis using True by (simp add: reference_data_def)
next
  case False
  then have "split_on 0x2C r = [takeWhile (\<lambda>x. x \<noteq> 0x2C) r]"
    by (subst split_on_first) simp
  with False show ?thesis by (simp add: reference_data_def)
qed

text \<open>
  C10, as stated, fails. For the argument \<open>a,b,c\<close> the data sent is \<open>b\<close>, the segment
  between the first two commas, while the substring after the first comma is \<open>b,c\<close>; for
  \<open>a,\<close>, which contains a comma, the argument is sent unchanged, while the substring after
  the first comma is empty.
\<close>

theorem first_comma_counterexample:
  "map inlineData (image_parts (js ''d'') (Some (js ''a,b,c'')))
     = [None, Some \<lparr> data = Some (js ''b''), mimeType = Some (js ''image/png'') \<rparr>] \<and>
   after_first_comma (js ''a,b,c'') = js ''b,c'' \<and>
   map inlineData (image_parts (js ''d'') (Some (js ''a,'')))
     = [None, Some \<lparr> data = Some (js ''a,''), mimeType = Some (js ''image/png'') \<rparr>] \<and>
   after_first_comma (js ''a,'') = js ''''"
  by (simp add: image_parts_def reference_data_def after_first_comma_def js_def)

text \<open>
  C10, amended. When the client is built, \<open>generatePanelImage\<close> issues exactly one request.
  For a non-empty reference image the request has two parts: the instruction text extended
  by the likeness instruction, and inline data of type \<open>image/png\<close> whose data is the segment
  between the first comma of the argument and its next comma (or its end) when the argument
  contains a comma and that segment is not empty, and the argument unchanged otherwise. For
  an absent or empty reference image the request has the instruction text alone.
\<close>

theorem reference_image_request:
  assumes "getAI key = Inr ai"
  shows "snd (generatePanelImage key provider log d ref) =
     log @
     [\<lparr> model = js ''gemini-2.5-flash-image'',
        contents = ContentsParts
          (case ref of
             None \<Rightarrow> [\<lparr> part_text = Some (image_prompt d), inlineData = None \<rparr>]
           | Some r \<Rightarrow>
               if r = [] then [\<lparr> part_text = Some (image_prompt d), inlineData = None \<rparr>]
               else
                 [\<lparr> part_text = Some (image_prompt d @ likeness_instruction), inlineData = None \<rparr>,
                  \<lparr> part_text = None,
                    inlineData = Some
                      \<lparr> data = Some
                          (if 0x2C \<in> set r \<and>
                              takeWhile (\<lambda>x. x \<noteq> 0x2C) (after_first_comma r) \<noteq> []
                           then takeWhile (\<lambda>x. x \<noteq> 0x2C) (after_first_comma r) else r),
                        mimeType = Some (js ''image/png'') \<rparr> \<rparr>]),
        config = ImageConfig (js ''1:1'') \<rparr>]"
  using assms
  by (simp add: generatePanelImage_def generateContent_def image_request_def image_parts_def
      reference_data_segment [symmetric] split: sum.splits option.splits)

text \<open>The amended C10 at a data URI and at a bare base64 string.\<close>

theorem reference_image_request_witness:
  "snd (generatePanelImage (Some (js ''k'')) (always (parts_response [])) [] (js ''d'')
          (Some (js ''data:image/png;base64,QUJD''))) =
     [\<lparr> model = js ''gemini-2.5-flash-image'',
        contents = ContentsParts
          [\<lparr> part_text = Some (image_prompt (js ''d'') @ likeness_instruction), inlineData = None \<rparr>,
           \<lparr> part_text = None,
             inlineData = Some \<lparr> data = Some (js ''QUJD''),
                                  mimeType = Some (js ''image/png'') \<rparr> \<rparr>],
        config = ImageConfig (js ''1:1'') \<rparr>] \<and>
   snd (generatePanelImage (Some (js ''k'')) (always (parts_response [])) [] (js ''d'')
          (Some (js ''QUJD''))) =
     [\<lparr> model = js ''gemini-2.5-flash-image'',
        contents = ContentsParts
          [\<lparr> part_text = Some (image_prompt (js ''d'') @ likeness_instruction), inlineData = None \<rparr>,
           \<lparr> part_text = None,
             inlineData = Some \<lparr> data = Some (js ''QUJD''),
                                  mimeType = Some (js ''image/png'') \<rparr> \<rparr>],
        config = ImageConfig (js ''1:1'') \<rparr>]"
proof -
  have k: "getAI (Some (js ''k'')) = Inr (js ''k'')"
    by (simp add: getAI_def js_def)
  show ?thesis
    using reference_image_request [OF k, of "always (parts_response [])" "[]" "js ''d''"
            "Some (js ''data:image/png;base64,QUJD'')"]
      reference_image_request [OF k, of "always (parts_response [])" "[]" "js ''d''"
            "Some (js ''QUJD'')"]
    by (simp add: after_first_comma_def js_def)
qed


section \<open>Properties of the server\<close>

lemmas store_eval = serve_def route_def get_comic_def delete_comic_def add_panel_def
  create_comic_def list_comics_def sample_store_def sample_backend_def empty_server_def js_def
  Let_def

subsection \<open>Reading a comic\<close>

lemma find_comic_Some:
  "ident \<in> set (map c_id cs) \<Longrightarrow> \<exists>c. find (\<lambda>c. c_id c = ident) cs = Some c \<and> c \<in> set cs \<and> c_id c = ident"
  by (induction cs) auto

lemma find_comic_None:
  "ident \<notin> set (map c_id cs) \<Longrightarrow> find (\<lambda>c. c_id c = ident) cs = None"
  by (induction cs) auto

text \<open>
  C4. For every identifier, \<open>GET /api/comics/:id\<close> answers 200 with a comic of the store
  that has this identifier, together with all panels of the store whose \<open>comic_id\<close> is the
  identifier, each once, in ascending order of \<open>order_index\<close>, when such a comic exists; and
  it answers 404 with the error \<open>Comic not found\<close> when none does. The store is unchanged.
\<close>

theorem get_comic_with_sorted_panels:
  "(ident \<in> set (map c_id (comics s)) \<longrightarrow>
      (\<exists>c ps. serve env (GetComic ident) s = (Reply 200 (ComicWithPanels c ps), s) \<and>
              c \<in> set (comics s) \<and> c_id c = ident \<and>
              sorted (map order_index ps) \<and>
              mset ps = filter_mset (\<lambda>p. comic_id p = ident) (mset (panels s)))) \<and>
   (ident \<notin> set (map c_id (comics s)) \<longrightarrow>
      serve env (GetComic ident) s = (Reply 404 (ErrorBody (js ''Comic not found'')), s))"
proof (intro conjI impI)
  assume "ident \<in> set (map c_id (comics s))"
  then obtain c where c: "find (\<lambda>c. c_id c = ident) (comics s) = Some c"
      "c \<in> set (comics s)" "c_id c = ident"
    using find_comic_Some by blast
  let ?ps = "sort_key order_index (filter (\<lambda>p. comic_id p = ident) (panels s))"
  have "serve env (GetComic ident) s = (Reply 200 (ComicWithPanels c ?ps), s)"
    using c(1) by (simp add: serve_def route_def get_comic_def)
  moreover have "sorted (map order_index ?ps)" by simp
  moreover have "mset ?ps = filter_mset (\<lambda>p. comic_id p = ident) (mset (panels s))" by simp
  ultimately show "\<exists>c ps. serve env (GetComic ident) s = (Reply 200 (ComicWithPanels c ps), s) \<and>
              c \<in> set (comics s) \<and> c_id c = ident \<and>
              sorted (map order_index ps) \<and>
              mset ps = filter_mset (\<lambda>p. comic_id p = ident) (mset (panels s))"
    using c(2,3) by blast
next
  assume "ident \<notin> set (map c_id (comics s))"
  then have "find (\<lambda>c. c_id c = ident) (comics s) = None" by (rule find_comic_None)
  then show "serve env (GetComic ident) s = (Reply 404 (ErrorBody (js ''Comic not found'')), s)"
    by (simp add: serve_def route_def get_comic_def)
qed

text \<open>C4 at the sample store, for the comic \<open>a\<close> and for an identifier without comic.\<close>

theorem get_comic_with_sorted_panels_witness:
  "serve sample_backend (GetComic (js ''a'')) sample_store =
     (Reply 200 (ComicWithPanels
        \<lparr> c_id = js ''a'', c_title = js ''T'', c_description = js ''D'', c_created_at = 0 \<rparr>
        [\<lparr> p_id = js ''aaa'', comic_id = js ''a'', image_url = js ''u0'', caption = js ''zero'',
            order_index = 0 \<rparr>,
         \<lparr> p_id = js ''aa'', comic_id = js ''a'', image_url = js ''u2'', caption = js ''two'',
            order_index = 2 \<rparr>]), sample_store) \<and>
   serve sample_backend (GetComic (js ''z'')) sample_store =
     (Reply 404 (ErrorBody (js ''Comic not found'')), sample_store)"
proof -
  have z: "js ''z'' \<notin> set (map c_id (comics sample_store))"
    by (simp add: sample_store_def js_def)
  from get_comic_with_sorted_panels [of "js ''z''" sample_store sample_backend, THEN conjunct2] z
  have "serve sample_backend (GetComic (js ''z'')) sample_store =
     (Reply 404 (ErrorBody (js ''Comic not found'')), sample_store)" by blast
  then show ?thesis by (simp add: store_eval)
qed

subsection \<open>Deleting a comic\<close>

text \<open>
  C5. For every identifier, \<open>DELETE /api/comics/:id\<close> answers 200 with \<open>{success: true}\<close>
  and leaves a store from which exactly the panels with this \<open>comic_id\<close> and the comics with
  this identifier are gone; a following \<open>GET /api/comics/:id\<close> answers 404, and a repeated
  delete again answers \<open>{success: true}\<close> and leaves the store as it is.
\<close>

theorem delete_comic_cascades:
  "(\<exists>s'. serve env (DeleteComic ident) s = (Reply 200 (SuccessBody True), s') \<and>
         panels s' = filter (\<lambda>p. comic_id p \<noteq> ident) (panels s) \<and>
         comics s' = filter (\<lambda>c. c_id c \<noteq> ident) (comics s) \<and>
         (\<forall>p \<in> set (panels s'). comic_id p \<noteq> ident) \<and>
         (\<forall>c \<in> set (comics s'). c_id c \<noteq> ident) \<and>
         serve env (GetComic ident) s' = (Reply 404 (ErrorBody (js ''Comic not found'')), s') \<and>
         serve env (DeleteComic ident) s' = (Reply 200 (SuccessBody True), s'))"
proof -
  let ?s' = "snd (serve env (DeleteComic ident) s)"
  have a: "serve env (DeleteComic ident) s = (Reply 200 (SuccessBody True), ?s')"
    by (simp add: serve_def route_def delete_comic_def)
  have p: "panels ?s' = filter (\<lambda>p. comic_id p \<noteq> ident) (panels s)"
    by (simp add: serve_def route_def delete_comic_def)
  have c: "comics ?s' = filter (\<lambda>c. c_id c \<noteq> ident) (comics s)"
    by (simp add: serve_def route_def delete_comic_def)
  have n: "ident \<notin> set (map c_id (comics ?s'))" using c by auto
  have g: "serve env (GetComic ident) ?s' = (Reply 404 (ErrorBody (js ''Comic not found'')), ?s')"
    using find_comic_None [OF n] by (simp add: serve_def route_def get_comic_def)
  have d: "serve env (DeleteComic ident) ?s' = (Reply 200 (SuccessBody True), ?s')"
    by (simp add: serve_def route_def delete_comic_def)
  from a p c g d show ?thesis by auto
qed

text \<open>C5 at the sample store, for the comic \<open>a\<close>.\<close>

theorem delete_comic_cascades_witness:
  "serve sample_backend (DeleteComic (js ''a'')) sample_store =
     (Reply 200 (SuccessBody True),
      \<lparr> comics = [],
        panels = [\<lparr> p_id = js ''aaaa'', comic_id = js ''b'', image_url = js ''u1'',
                     caption = js ''one'', order_index = 1 \<rparr>],
        drawn = 4, foreign_keys = False \<rparr>) \<and>
   serve sample_backend (GetComic (js ''a''))
     (snd (serve sample_backend (DeleteComic (js ''a'')) sample_store)) =
     (Reply 404 (ErrorBody (js ''Comic not found'')),
      snd (serve sample_backend (DeleteComic (js ''a'')) sample_store))"
proof -
  from delete_comic_cascades [of sample_backend "js ''a''" sample_store]
  obtain s' where s': "serve sample_backend (DeleteComic (js ''a'')) sample_store
        = (Reply 200 (SuccessBody True), s')"
      "serve sample_backend (GetComic (js ''a'')) s' = (Reply 404 (ErrorBody (js ''Comic not found'')), s')"
    by blast
  have "serve sample_backend (DeleteComic (js ''a'')) sample_store =
     (Reply 200 (SuccessBody True),
      \<lparr> comics = [],
        panels = [\<lparr> p_id = js ''aaaa'', comic_id = js ''b'', image_url = js ''u1'',
                     caption = js ''one'', order_index = 1 \<rparr>],
        drawn = 4, foreign_keys = False \<rparr>)"
    by (simp add: store_eval)
  with s' show ?thesis by simp
qed

subsection \<open>Uniqueness of \<open>order_index\<close> within a comic\<close>

text \<open>
  C2, as stated, fails. From the empty store, creating a comic and posting two panels with
  \<open>order_index\<close> 0 to it gives a reachable store in which two panels of the comic share their
  \<open>order_index\<close>: \<open>POST /api/comics/:id/panels\<close> does not preserve uniqueness.
\<close>

theorem order_index_unique_counterexample:
  "order_unique
     (serve_all sample_backend [PostComic (Some (js ''T'')) (js ''D'')] (empty_server True))
     (js ''a'') \<and>
   \<not> order_unique
     (serve_all sample_backend
        [PostComic (Some (js ''T'')) (js ''D''),
         PostPanel (js ''a'') (js ''u'') (js ''one'') 0,
         PostPanel (js ''a'') (js ''v'') (js ''two'') 0]
        (empty_server True))
     (js ''a'')"
  by (simp add: order_unique_def store_eval)

text \<open>
  C2, amended. If the panels of a comic are pairwise distinct in \<open>order_index\<close>, they are
  still so after any request, provided that a request posting a panel to this comic carries
  an \<open>order_index\<close> that no panel of the comic has yet. Listing, creating, reading and
  deleting comics, and posting panels to other comics, always preserve the uniqueness.
\<close>

theorem order_index_unique_preserved:
  assumes "order_unique s c"
    and "\<forall>url cap idx. req = PostPanel c url cap idx \<longrightarrow>
           idx \<notin> set (map order_index (filter (\<lambda>p. comic_id p = c) (panels s)))"
  shows "order_unique (snd (serve env req s)) c"
proof (cases req)
  case GetComics
  then show ?thesis using assms(1)
    by (simp add: serve_def route_def list_comics_def)
next
  case (PostComic title description)
  then show ?thesis using assms(1)
    by (auto simp: serve_def route_def create_comic_def Let_def order_unique_def split: option.splits)
next
  case (GetComic ident)
  then show ?thesis using assms(1)
    by (simp add: serve_def route_def get_comic_def split: option.splits)
next
  case (DeleteComic ident)
  from assms(1)
  have "distinct (map order_index
          (filter (\<lambda>p. comic_id p \<noteq> ident) (filter (\<lambda>p. comic_id p = c) (panels s))))"
    unfolding order_unique_def by (rule distinct_map_filter)
  moreover
  have "filter (\<lambda>p. comic_id p = c) (filter (\<lambda>p. comic_id p \<noteq> ident) (panels s))
        = filter (\<lambda>p. comic_id p \<noteq> ident) (filter (\<lambda>p. comic_id p = c) (panels s))"
    by (simp add: conj_commute)
  ultimately have "distinct (map order_index
          (filter (\<lambda>p. comic_id p = c) (filter (\<lambda>p. comic_id p \<noteq> ident) (panels s))))"
    by (simp only:)
  then show ?thesis using DeleteComic
    by (simp add: serve_def route_def delete_comic_def order_unique_def del: filter_filter)
next
  case (PostPanel cid url cap idx)
  show ?thesis
  proof (cases "cid = c")
    case True
    with PostPanel assms(2)
    have "idx \<notin> set (map order_index (filter (\<lambda>p. comic_id p = c) (panels s)))" by blast
    then show ?thesis using assms(1) PostPanel True
      by (auto simp: serve_def route_def add_panel_def Let_def order_unique_def)
  next
    case False
    then show ?thesis using assms(1) PostPanel
      by (auto simp: serve_def route_def add_panel_def Let_def order_unique_def)
  qed
qed

text \<open>The amended C2 at the sample store, posting a panel with the unused \<open>order_index\<close> 1.\<close>

theorem order_index_unique_preserved_witness:
  "order_unique sample_store (js ''a'') \<and>
   order_unique
     (snd (serve sample_backend (PostPanel (js ''a'') (js ''u1'') (js ''one'') 1) sample_store))
     (js ''a'')"
proof -
  have u: "order_unique sample_store (js ''a'')"
    by (simp add: order_unique_def sample_store_def js_def)
  have f: "\<forall>url cap idx. PostPanel (js ''a'') (js ''u1'') (js ''one'') 1 = PostPanel (js ''a'') url cap idx \<longrightarrow>
           idx \<notin> set (map order_index (filter (\<lambda>p. comic_id p = js ''a'') (panels sample_store)))"
    by (simp add: sample_store_def js_def)
  from order_index_unique_preserved [OF u f, of sample_backend] u show ?thesis by simp
qed


section \<open>Properties of the creation workflow\<close>

subsection \<open>A story without panels\<close>

text \<open>
  C3. If story generation returns a story without panels (reading \<open>story.panels\<close> throws,
  gives a falsy value, or gives the empty array), the run ends in the \<open>catch\<close> block: it has
  sent no HTTP request (no \<open>POST /api/comics\<close>, no panel write), the server is as it was, and
  the failure is shown with \<open>alert\<close>.
\<close>

theorem zero_panels_abort:
  assumes "generateComicStory (apiKey env) (ai_provider env) (issued w) (prompt (ui w))
             (Some (language (ui w))) = (Inr story, log')"
    and "read_panels story = PanelsThrows \<or> read_panels story = PanelsFalsy \<or>
         read_panels story = PanelsArray []"
  shows "\<exists>w'. handleCreateComic env w = Some w' \<and> fetched w' = fetched w \<and> srv w' = srv w \<and>
           (prompt (ui w) \<noteq> [] \<longrightarrow>
              alerts w' = alerts w @ [js ''Ocorreu um erro ao gerar sua HQ. Tente novamente.''])"
proof (cases "prompt (ui w) = []")
  case True
  then show ?thesis by (simp add: handleCreateComic_def)
next
  case False
  let ?w1 = "set_ui (\<lambda>u. u\<lparr> isLoading := True, generationProgress := Some (0, 0) \<rparr>) w"
  have g: "generateComicStory (apiKey env) (ai_provider env) (issued ?w1) (prompt (ui ?w1))
             (Some (language (ui ?w1))) = (Inr story, log')"
    using assms(1) by (simp add: set_ui_def)
  from assms(2) obtain e where "create_from_story env story (?w1\<lparr> issued := log' \<rparr>)
          = Some (Some e, ?w1\<lparr> issued := log' \<rparr>)"
    by (auto simp: create_from_story_def)
  then have "try_block env ?w1 = Some (Some e, ?w1\<lparr> issued := log' \<rparr>)"
    by (simp add: try_block_def g)
  then show ?thesis using False
    by (simp add: handleCreateComic_def finally_block_def catch_block_def set_ui_def)
qed

lemma fallback_reads: "read_panels fallback_story = PanelsArray []"
  by (simp add: read_panels_def fallback_story_def json_member_def js_def)

lemma empty_object_reads: "read_panels (JObj []) = PanelsFalsy"
  by (simp add: read_panels_def json_member_def)

lemma parse_story_not_json: "parse_story (Some (js ''not json'')) = fallback_story"
proof -
  have "js ''not json'' \<noteq> []" by (simp add: js_def)
  then show ?thesis by (simp add: parse_story_def clean_not_json)
qed

text \<open>C3 at a provider that answers \<open>not json\<close>, so that the story is the fallback.\<close>

theorem zero_panels_abort_witness:
  "(\<exists>w'. handleCreateComic (sample_env (always (text_response (Some (js ''not json''))))) initial_world
            = Some w' \<and> fetched w' = [] \<and> srv w' = empty_server True \<and>
          alerts w' = [js ''Ocorreu um erro ao gerar sua HQ. Tente novamente.''])"
proof -
  let ?env = "sample_env (always (text_response (Some (js ''not json''))))"
  have k: "getAI (Some (js ''k'')) = Inr (js ''k'')"
    by (simp add: getAI_def js_def)
  have g: "generateComicStory (apiKey ?env) (ai_provider ?env) (issued initial_world)
             (prompt (ui initial_world)) (Some (language (ui initial_world)))
           = (Inr fallback_story,
              [story_request (prompt (ui initial_world)) (language (ui initial_world))])"
    by (simp add: generateComicStory_def generateContent_def sample_env_def k always_def
        text_response_def parse_story_not_json initial_world_def)
  have r: "read_panels fallback_story = PanelsThrows \<or> read_panels fallback_story = PanelsFalsy \<or>
         read_panels fallback_story = PanelsArray []"
    by (simp add: fallback_reads)
  have p: "prompt (ui initial_world) \<noteq> []"
    by (simp add: initial_world_def initial_ui_def js_def)
  from zero_panels_abort [OF g r] p
  show ?thesis by (simp add: initial_world_def)
qed

subsection \<open>A panel without image\<close>












section \<open>A complete run\<close>

text \<open>
  The workflow from the fenced story text to the store: the comic is created, the panels at
  positions 0 and 2 are written, the panel without image is skipped, and the viewer opens.
\<close>

lemma story_parses:
  "JSON_parse story_text = Some (JObj [(js ''title'', JStr (js ''T'')),
     (js ''panels'', JArr [JObj [(js ''visualDescription'', JStr (js ''d0'')), (js ''caption'', JStr (js ''c0''))],
                           JObj [(js ''visualDescription'', JStr (js ''d1'')), (js ''caption'', JStr (js ''c1''))],
                           JObj [(js ''visualDescription'', JStr (js ''d2'')), (js ''caption'', JStr (js ''c2''))]])])"
  by (simp add: story_text_def json_eval)

lemma story_reads:
  "read_panels (JObj [(js ''title'', JStr (js ''T'')),
     (js ''panels'', JArr [JObj [(js ''visualDescription'', JStr (js ''d0'')), (js ''caption'', JStr (js ''c0''))],
                           JObj [(js ''visualDescription'', JStr (js ''d1'')), (js ''caption'', JStr (js ''c1''))],
                           JObj [(js ''visualDescription'', JStr (js ''d2'')), (js ''caption'', JStr (js ''c2''))]])])
   = PanelsArray [JObj [(js ''visualDescription'', JStr (js ''d0'')), (js ''caption'', JStr (js ''c0''))],
                  JObj [(js ''visualDescription'', JStr (js ''d1'')), (js ''caption'', JStr (js ''c1''))],
                  JObj [(js ''visualDescription'', JStr (js ''d2'')), (js ''caption'', JStr (js ''c2''))]] \<and>
   read_title (JObj [(js ''title'', JStr (js ''T'')),
     (js ''panels'', JArr [JObj [(js ''visualDescription'', JStr (js ''d0'')), (js ''caption'', JStr (js ''c0''))],
                           JObj [(js ''visualDescription'', JStr (js ''d1'')), (js ''caption'', JStr (js ''c1''))],
                           JObj [(js ''visualDescription'', JStr (js ''d2'')), (js ''caption'', JStr (js ''c2''))]])])
   = Some (Some (js ''T'')) \<and>
   decode_panels [JObj [(js ''visualDescription'', JStr (js ''d0'')), (js ''caption'', JStr (js ''c0''))],
                  JObj [(js ''visualDescription'', JStr (js ''d1'')), (js ''caption'', JStr (js ''c1''))],
                  JObj [(js ''visualDescription'', JStr (js ''d2'')), (js ''caption'', JStr (js ''c2''))]]
   = Some three_panels"
  by (simp add: read_panels_def read_title_def decode_panel_def json_member_def three_panels_def js_def)

lemma story_generated:
  "generateComicStory (Some (js ''k'')) full_script [] (js ''cats'') (Some (js ''pt-BR''))
   = (Inr (JObj [(js ''title'', JStr (js ''T'')),
     (js ''panels'', JArr [JObj [(js ''visualDescription'', JStr (js ''d0'')), (js ''caption'', JStr (js ''c0''))],
                           JObj [(js ''visualDescription'', JStr (js ''d1'')), (js ''caption'', JStr (js ''c1''))],
                           JObj [(js ''visualDescription'', JStr (js ''d2'')), (js ''caption'', JStr (js ''c2''))]])]),
      [story_request (js ''cats'') (js ''pt-BR'')])"
proof -
  have k: "getAI (Some (js ''k'')) = Inr (js ''k'')"
    by (simp add: getAI_def js_def)
  have n: "story_text \<noteq> []" by (simp add: story_text_def js_def)
  have f: "fenced story_text \<noteq> []" by (rule fenced_nonempty)
  have "parse_story (Some (fenced story_text)) = parse_story (Some story_text)"
    using n by (rule parse_story_fenced)
  also have "trim (strip_fences story_text) = story_text"
    by (simp add: story_text_def js_def text_eval)
  then have "parse_story (Some story_text) = the (JSON_parse story_text)"
    using n by (simp add: parse_story_def story_parses)
  finally show ?thesis
    by (simp add: generateComicStory_def generateContent_def k full_script_def scripted_def
        text_response_def story_parses)
qed

lemma full_run:
  "\<exists>w'. handleCreateComic (sample_env full_script) initial_world = Some w' \<and>
     map order_index (panels (srv w')) = [0, 2] \<and>
     map c_title (comics (srv w')) = [js ''T''] \<and>
     fetched w' = [PostComic (Some (js ''T'')) (js ''cats''),
                   PostPanel (js ''a'') (js ''data:image/png;base64,AAAA'') (js ''c0'') 0,
                   PostPanel (js ''a'') (js ''data:image/png;base64,CCCC'') (js ''c2'') 2] \<and>
     length (issued w') = 4 \<and> alerts w' = [] \<and> current_view (ui w') = Viewer \<and>
     generationProgress (ui w') = None"
proof -
  have g: "generateComicStory (apiKey (sample_env full_script)) (ai_provider (sample_env full_script)) [] (js ''cats'') (Some (js ''pt-BR''))
   = (Inr (JObj [(js ''title'', JStr (js ''T'')),
     (js ''panels'', JArr [JObj [(js ''visualDescription'', JStr (js ''d0'')), (js ''caption'', JStr (js ''c0''))],
                           JObj [(js ''visualDescription'', JStr (js ''d1'')), (js ''caption'', JStr (js ''c1''))],
                           JObj [(js ''visualDescription'', JStr (js ''d2'')), (js ''caption'', JStr (js ''c2''))]])]),
      [story_request (js ''cats'') (js ''pt-BR'')])"
    using story_generated by (simp add: sample_env_def)
  show ?thesis
    apply (simp add: handleCreateComic_def try_block_def create_from_story_def initial_world_def
        initial_ui_def set_ui_def g story_reads)
    apply (simp add: three_panels_def full_script_def finally_block_def catch_block_def
       initial_ui_def sample_env_def set_ui_def generatePanelImage_def getAI_def generateContent_def scripted_def
  response_parts_def parts_response_def image_part_def text_part_def interpolate_def
  reference_image_def fetch_def reply_json_def decode_panel_def json_member_def store_eval)
    done
qed

end
